theory Spec2Isabelle
  imports Complex_Main
begin

section \<open>Data model: cells, rows and tables\<close>

text \<open>
  The pipeline of \<^verbatim>\<open>clean_openfood.py\<close> works on one pandas DataFrame. A cell is a text,
  a number or missing (NaN / NA). Integers and floats are both \<open>Num\<close>: Python compares
  and hashes \<^verbatim>\<open>1\<close> and \<^verbatim>\<open>1.0\<close> alike, and numbers are taken as reals (infinities and
  the rounding of float arithmetic are outside the model). A text is a \<open>string\<close>, the
  bytes of its UTF-8 encoding; the character functions below are those of Python on ASCII
  text.

  A table is the ordered list of its column names and the ordered list of its rows; a row
  gives a cell for every name, and only the cells of the table's columns are part of the
  table. Text columns are object columns, as the loader yields them for a column with a
  textual entry, so that the \<^verbatim>\<open>.str\<close> accessor is available and gives NaN on an entry
  that is not a text.
\<close>

datatype cell = Missing | Text string | Num real

type_synonym row = "string \<Rightarrow> cell"

record table =
  columns :: "string list"
  rows :: "row list"

datatype error = KeyError string | TypeError | AttributeError

definition column_values :: "string \<Rightarrow> table \<Rightarrow> cell list" where
  "column_values c df = map (\<lambda>r. r c) (rows df)"

text \<open>
  \<^verbatim>\<open>df[c] = ...\<close> with a right-hand side computed row by row from the current table:
  an existing column is overwritten in place, a new one is appended as the last column.
\<close>

definition assign :: "string \<Rightarrow> (row \<Rightarrow> cell) \<Rightarrow> table \<Rightarrow> table" where
  "assign c f df =
     \<lparr>columns = (if c \<in> set (columns df) then columns df else columns df @ [c]),
      rows = map (\<lambda>r. r(c := f r)) (rows df)\<rparr>"

text \<open>Reading \<^verbatim>\<open>df[c]\<close> raises KeyError when the table has no column \<open>c\<close>.\<close>

definition require :: "string \<Rightarrow> table \<Rightarrow> (table \<Rightarrow> error + table) \<Rightarrow> error + table" where
  "require c df k = (if c \<in> set (columns df) then k df else Inl (KeyError c))"

text \<open>\<^verbatim>\<open>df.drop(columns=[c], inplace=True)\<close>: KeyError when \<open>c\<close> is not a column.\<close>

definition drop_column :: "string \<Rightarrow> table \<Rightarrow> error + table" where
  "drop_column c df =
     (if c \<in> set (columns df)
      then Inr \<lparr>columns = filter (\<lambda>d. d \<noteq> c) (columns df), rows = rows df\<rparr>
      else Inl (KeyError c))"

text \<open>An exception ends the stage: the first error is returned.\<close>

definition bind_err :: "error + 'a \<Rightarrow> ('a \<Rightarrow> error + 'b) \<Rightarrow> error + 'b" where
  "bind_err m k = (case m of Inl e \<Rightarrow> Inl e | Inr x \<Rightarrow> k x)"

fun first_error :: "(error + 'a) list \<Rightarrow> error option" where
  "first_error [] = None"
| "first_error (Inl e # xs) = Some e"
| "first_error (Inr x # xs) = first_error xs"

text \<open>
  \<^verbatim>\<open>df[c] = df[c].apply(f)\<close> for a Python function \<open>f\<close> that may raise: the rows are
  visited in order and the first exception leaves the stage.
\<close>

definition apply_column :: "string \<Rightarrow> (cell \<Rightarrow> error + cell) \<Rightarrow> table \<Rightarrow> error + table" where
  "apply_column c f df =
     (case first_error (map (\<lambda>r. f (r c)) (rows df)) of
        Some e \<Rightarrow> Inl e
      | None \<Rightarrow> Inr (assign c (\<lambda>r. case f (r c) of Inr v \<Rightarrow> v | Inl e \<Rightarrow> r c) df))"

text \<open>\<^verbatim>\<open>df[mask]\<close> with a boolean mask computed row by row: the rows of the mask stay.\<close>

definition filter_rows :: "(row \<Rightarrow> bool) \<Rightarrow> table \<Rightarrow> table" where
  "filter_rows keep df = \<lparr>columns = columns df, rows = filter keep (rows df)\<rparr>"

definition shape :: "table \<Rightarrow> nat \<times> nat" where
  "shape df = (length (rows df), length (columns df))"

subsection \<open>Series methods, cell by cell\<close>

definition notnull :: "cell \<Rightarrow> bool" where
  "notnull x = (x \<noteq> Missing)"

definition fillna :: "cell \<Rightarrow> cell \<Rightarrow> cell" where
  "fillna v x = (if x = Missing then v else x)"

text \<open>\<^verbatim>\<open>Series.replace(olds, new)\<close>: an entry equal to one of \<open>olds\<close> becomes \<open>new\<close>.\<close>

definition replace_value :: "cell list \<Rightarrow> cell \<Rightarrow> cell \<Rightarrow> cell" where
  "replace_value olds new x = (if x \<in> set olds then new else x)"

text \<open>A method of the \<^verbatim>\<open>.str\<close> accessor: applied to texts, NaN on anything else.\<close>

definition str_method :: "(string \<Rightarrow> string) \<Rightarrow> cell \<Rightarrow> cell" where
  "str_method f x = (case x of Text s \<Rightarrow> Text (f s) | _ \<Rightarrow> Missing)"

text \<open>\<^verbatim>\<open>Series.map(d)\<close> with a dict: an entry that is no key of \<open>d\<close> becomes NaN.\<close>

definition map_dict :: "(cell \<times> cell) list \<Rightarrow> cell \<Rightarrow> cell" where
  "map_dict d x = (case map_of d x of Some v \<Rightarrow> v | None \<Rightarrow> Missing)"

section \<open>Python strings\<close>

text \<open>
  Character classes of Python's \<^verbatim>\<open>str\<close> on ASCII: the cased characters are the letters,
  \<^verbatim>\<open>isspace\<close> holds for the codes 9 to 13 and 28 to 32, and a word character of a
  regular expression (\<^verbatim>\<open>\w\<close>) is a letter, a digit or the underscore. A character above
  127 is taken as uncased, not a space and not a word character.
\<close>

definition is_upper :: "char \<Rightarrow> bool" where
  "is_upper c = (let n = (of_char c :: nat) in 65 \<le> n \<and> n \<le> 90)"

definition is_lower :: "char \<Rightarrow> bool" where
  "is_lower c = (let n = (of_char c :: nat) in 97 \<le> n \<and> n \<le> 122)"

definition is_cased :: "char \<Rightarrow> bool" where
  "is_cased c = (is_upper c \<or> is_lower c)"

definition is_digit :: "char \<Rightarrow> bool" where
  "is_digit c = (let n = (of_char c :: nat) in 48 \<le> n \<and> n \<le> 57)"

definition is_space :: "char \<Rightarrow> bool" where
  "is_space c = (let n = (of_char c :: nat) in (9 \<le> n \<and> n \<le> 13) \<or> (28 \<le> n \<and> n \<le> 32))"

definition is_word :: "char \<Rightarrow> bool" where
  "is_word c = (is_cased c \<or> is_digit c \<or> c = CHR ''_'')"

definition lower_char :: "char \<Rightarrow> char" where
  "lower_char c = (if is_upper c then char_of (of_char c + (32::nat)) else c)"

definition upper_char :: "char \<Rightarrow> char" where
  "upper_char c = (if is_lower c then char_of (of_char c - (32::nat)) else c)"

text \<open>\<^verbatim>\<open>str.lower()\<close>.\<close>

definition lower :: "string \<Rightarrow> string" where
  "lower s = map lower_char s"

text \<open>
  \<^verbatim>\<open>str.title()\<close>: a character that follows a cased character is lowercased, any other
  is titlecased (uppercased, on ASCII).
\<close>

fun title_from :: "bool \<Rightarrow> string \<Rightarrow> string" where
  "title_from previous_is_cased [] = []"
| "title_from previous_is_cased (c # cs) =
     (if previous_is_cased then lower_char c else upper_char c) # title_from (is_cased c) cs"

definition title :: "string \<Rightarrow> string" where
  "title s = title_from False s"

text \<open>\<^verbatim>\<open>str.strip()\<close>: whitespace is removed at both ends.\<close>

definition strip :: "string \<Rightarrow> string" where
  "strip s = rev (dropWhile is_space (rev (dropWhile is_space s)))"

text \<open>
  \<^verbatim>\<open>html.unescape(s)\<close> returns \<open>s\<close> itself when it holds no ampersand, and otherwise
  substitutes the character references of \<open>s\<close>; that substitution, with its table of
  named entities, is the parameter \<open>charref\<close>.
\<close>

definition html_unescape :: "(string \<Rightarrow> string) \<Rightarrow> string \<Rightarrow> string" where
  "html_unescape charref s = (if CHR ''&'' \<notin> set s then s else charref s)"

text \<open>
  \<^verbatim>\<open>s.replace(old, new)\<close> for a non-empty \<open>old\<close> (the source never passes an empty one):
  the occurrences of \<open>old\<close> are replaced from left to right, without overlap.
\<close>

function replace_lit :: "string \<Rightarrow> string \<Rightarrow> string \<Rightarrow> string" where
  "replace_lit old new s =
     (if old = [] \<or> s = [] then s
      else if take (length old) s = old then new @ replace_lit old new (drop (length old) s)
      else hd s # replace_lit old new (tl s))"
  by pat_completeness auto
termination
  by (relation "measure (\<lambda>(old, new, s). length s)") auto

declare replace_lit.simps [simp del]

text \<open>
  \<^verbatim>\<open>re.sub(r"\b\w{2,3}:", "", s)\<close>. A match starts where a word character follows the
  start of the text or a character that is no word character, and takes three word
  characters and a colon, or else two word characters and a colon. The scan goes on after
  a match; the character before that point is then the colon.
\<close>

function strip_codes_from :: "bool \<Rightarrow> string \<Rightarrow> string" where
  "strip_codes_from previous_is_word s =
     (if s = [] then []
      else if \<not> previous_is_word \<and> 4 \<le> length s \<and> is_word (s ! 0) \<and> is_word (s ! 1)
              \<and> is_word (s ! 2) \<and> s ! 3 = CHR '':''
        then strip_codes_from False (drop 4 s)
      else if \<not> previous_is_word \<and> 3 \<le> length s \<and> is_word (s ! 0) \<and> is_word (s ! 1)
              \<and> s ! 2 = CHR '':''
        then strip_codes_from False (drop 3 s)
      else hd s # strip_codes_from (is_word (hd s)) (tl s))"
  by pat_completeness auto
termination
  by (relation "measure (\<lambda>(p, s). length s)") auto

declare strip_codes_from.simps [simp del]

definition strip_codes :: "string \<Rightarrow> string" where
  "strip_codes s = strip_codes_from False s"

text \<open>
  \<^verbatim>\<open>remove_lang_prefix\<close> on a text:
  \<^verbatim>\<open>re.sub(r'^[a-z]{2}[:_]', '', text, flags=re.IGNORECASE).strip()\<close>.
\<close>

definition remove_lang_prefix_str :: "string \<Rightarrow> string" where
  "remove_lang_prefix_str s =
     strip (if 3 \<le> length s \<and> is_cased (s ! 0) \<and> is_cased (s ! 1)
               \<and> (s ! 2 = CHR '':'' \<or> s ! 2 = CHR ''_'')
            then drop 3 s else s)"

text \<open>\<^verbatim>\<open>re.sub(r"\s+", " ", s)\<close>: every run of whitespace becomes one space.\<close>

function collapse_spaces :: "string \<Rightarrow> string" where
  "collapse_spaces [] = []"
| "collapse_spaces (c # cs) =
     (if is_space c then CHR '' '' # collapse_spaces (dropWhile is_space cs)
      else c # collapse_spaces cs)"
  by pat_completeness auto
termination
  by (relation "measure length") (auto simp: less_Suc_eq_le length_dropWhile_le)

text \<open>\<^verbatim>\<open>s.split(",")\<close> and \<^verbatim>\<open>", ".join(parts)\<close>.\<close>

fun split_comma :: "string \<Rightarrow> string list" where
  "split_comma [] = [[]]"
| "split_comma (c # cs) =
     (if c = CHR '','' then [] # split_comma cs
      else (case split_comma cs of p # ps \<Rightarrow> (c # p) # ps | [] \<Rightarrow> [[c]]))"

fun join_comma_space :: "string list \<Rightarrow> string" where
  "join_comma_space [] = []"
| "join_comma_space [p] = p"
| "join_comma_space (p # ps) = p @ '', '' @ join_comma_space ps"

section \<open>Text-field cleaners\<close>

text \<open>
  \<^verbatim>\<open>lambda x: html.unescape(x) if pd.notnull(x) else x\<close>: \<^verbatim>\<open>html.unescape\<close> of a
  number raises TypeError.
\<close>

definition unescape_cell :: "(string \<Rightarrow> string) \<Rightarrow> cell \<Rightarrow> error + cell" where
  "unescape_cell charref x =
     (if notnull x
      then (case x of Text s \<Rightarrow> Inr (Text (html_unescape charref s)) | _ \<Rightarrow> Inl TypeError)
      else Inr x)"

text \<open>The comma spacing \<^verbatim>\<open>.str.replace(", ", ",").str.replace(",", ", ")\<close>.\<close>

definition comma_spacing :: "cell \<Rightarrow> cell" where
  "comma_spacing x = str_method (replace_lit '','' '', '') (str_method (replace_lit '', '' '','') x)"

subsection \<open>\<^verbatim>\<open>clean_product_name\<close>\<close>

definition clean_product_name :: "(string \<Rightarrow> string) \<Rightarrow> table \<Rightarrow> error + table" where
  "clean_product_name charref df =
     require ''product_name'' df (\<lambda>df.
       bind_err (apply_column ''product_name'' (unescape_cell charref) df) (\<lambda>df.
         let df = assign ''product_name'' (\<lambda>r.
                    str_method title (str_method strip (r ''product_name''))) df;
             df = filter_rows (\<lambda>r. r ''product_name'' \<noteq> Text ''Xxx'') df;
             df = assign ''product_name'' (\<lambda>r. fillna (Text ''Unknown'') (r ''product_name'')) df
         in Inr df))"

subsection \<open>\<^verbatim>\<open>clean_brands\<close>\<close>

text \<open>The right single quotation mark U+2019, as its three UTF-8 bytes.\<close>

definition right_quote :: string where
  "right_quote = [CHR 0xE2, CHR 0x80, CHR 0x99]"

definition clean_brands :: "(string \<Rightarrow> string) \<Rightarrow> table \<Rightarrow> error + table" where
  "clean_brands charref df =
     require ''brands'' df (\<lambda>df.
       bind_err (apply_column ''brands'' (unescape_cell charref) df) (\<lambda>df.
         let df = assign ''brands'' (\<lambda>r. str_method strip (str_method title (r ''brands''))) df;
             df = assign ''brands'' (\<lambda>r.
                    replace_value [Text ''Xylimgxyling''] (Text ''Unknown'') (r ''brands'')) df;
             df = assign ''brands'' (\<lambda>r.
                    str_method (replace_lit right_quote [CHR 0x27]) (r ''brands'')) df;
             df = assign ''brands'' (\<lambda>r. comma_spacing (r ''brands'')) df;
             df = assign ''brands'' (\<lambda>r. fillna (Text ''Unknown'') (r ''brands'')) df
         in Inr df))"

subsection \<open>\<^verbatim>\<open>clean_categories\<close>\<close>

text \<open>\<^verbatim>\<open>remove_lang_prefix\<close> returns what is not a \<^verbatim>\<open>str\<close> as it is.\<close>

definition remove_lang_prefix :: "cell \<Rightarrow> cell" where
  "remove_lang_prefix x = (case x of Text s \<Rightarrow> Text (remove_lang_prefix_str s) | _ \<Rightarrow> x)"

definition clean_categories :: "table \<Rightarrow> error + table" where
  "clean_categories df =
     require ''categories'' df (\<lambda>df.
       let df = assign ''categories'' (\<lambda>r.
                  replace_value [Text ''undefined'', Text ''za''] Missing (r ''categories'')) df;
           df = assign ''categories'' (\<lambda>r.
                  remove_lang_prefix
                    (fillna (Text ''Unknown'') (str_method strip (r ''categories'')))) df;
           df = assign ''categories_top'' (\<lambda>r.
                  fillna (Text ''Unknown'')
                    (str_method title (str_method (\<lambda>s. hd (split_comma s)) (r ''categories'')))) df
       in Inr df)"

subsection \<open>\<^verbatim>\<open>clean_countries\<close>\<close>

definition country_map :: "(string \<times> string) list" where
  "country_map =
     [(''Fr'', ''France''), (''De'', ''Germany''), (''Gb'', ''United Kingdom''),
      (''Us'', ''United States''), (''Uk'', ''United Kingdom''),
      (''Espa'' @ [CHR 0xC3, CHR 0xB1] @ ''a'', ''Spain''), (''Espana'', ''Spain''),
      (''Francia'', ''France''), (''Frankreich'', ''France''),
      (''Vereinigte Staaten Von Amerika'', ''United States''), (''Brasil'', ''Brazil''),
      (''Brasilien'', ''Brazil''), (''Griechenland'', ''Greece''), (''Irland'', ''Ireland''),
      (''Alemania'', ''Germany''), (''Belgien'', ''Belgium''), (''Selestosina'', ''Unknown''),
      (''Ca'', ''Canada''), (''European Union'', ''European Union''), (''World'', ''World'')]"

text \<open>\<^verbatim>\<open>country_map.get(c.strip(), c.strip())\<close> for one token \<open>c\<close>.\<close>

definition country_token :: "string \<Rightarrow> string" where
  "country_token c = (case map_of country_map (strip c) of Some v \<Rightarrow> v | None \<Rightarrow> strip c)"

text \<open>
  \<^verbatim>\<open>lambda x: ", ".join(country_map.get(c.strip(), c.strip()) for c in x.split(","))\<close>:
  an \<open>x\<close> that is no \<^verbatim>\<open>str\<close> has no \<^verbatim>\<open>split\<close>.
\<close>

definition map_countries :: "cell \<Rightarrow> error + cell" where
  "map_countries x =
     (case x of Text s \<Rightarrow> Inr (Text (join_comma_space (map country_token (split_comma s))))
      | _ \<Rightarrow> Inl AttributeError)"

definition clean_countries :: "table \<Rightarrow> error + table" where
  "clean_countries df =
     require ''countries'' df (\<lambda>df.
       let df = assign ''countries'' (\<lambda>r. str_method strip_codes (r ''countries'')) df;
           df = assign ''countries'' (\<lambda>r.
                  str_method title (comma_spacing (str_method strip (r ''countries'')))) df;
           df = assign ''countries'' (\<lambda>r. fillna (Text ''Unknown'') (r ''countries'')) df
       in apply_column ''countries'' map_countries df)"

text \<open>The lines 77 to 79 of the source on one cell: what \<^verbatim>\<open>map_countries\<close> is applied to.\<close>

definition countries_text :: "cell \<Rightarrow> cell" where
  "countries_text x = fillna (Text ''Unknown'')
     (str_method title (comma_spacing (str_method strip (str_method strip_codes x))))"

subsection \<open>\<^verbatim>\<open>clean_ingredients_labels_packaging\<close>\<close>

definition clean_ingredients_labels_packaging :: "table \<Rightarrow> error + table" where
  "clean_ingredients_labels_packaging df =
     require ''ingredients_text'' df (\<lambda>df.
       let df = assign ''ingredients_text'' (\<lambda>r.
                  str_method collapse_spaces (str_method lower (str_method strip
                    (fillna (Text ''Unknown'') (r ''ingredients_text''))))) df
       in require ''labels'' df (\<lambda>df.
         let df = assign ''labels'' (\<lambda>r.
                    comma_spacing (str_method lower (str_method strip_codes
                      (fillna (Text ''Unknown'') (r ''labels''))))) df
         in require ''packaging'' df (\<lambda>df.
           let df = assign ''packaging'' (\<lambda>r.
                      str_method title (fillna (Text ''Unknown'') (str_method strip
                        (comma_spacing (str_method strip_codes (r ''packaging'')))))) df;
               df = assign ''packaging'' (\<lambda>r.
                      replace_value [Text ''40g'', Text ''packaging'', Text ''plaza vea'', Text ''za'']
                        (Text ''Unknown'') (r ''packaging'')) df
           in Inr df)))"

section \<open>Coded-field mappers\<close>

subsection \<open>\<^verbatim>\<open>clean_nova_group\<close>\<close>

definition nova_map :: "(cell \<times> cell) list" where
  "nova_map =
     [(Num 1, Text ''Unprocessed or Minimally Processed''),
      (Num 2, Text ''Processed Culinary Ingredients''),
      (Num 3, Text ''Processed Foods''),
      (Num 4, Text ''Ultra-Processed Foods''),
      (Text ''unknown'', Text ''Unknown'')]"

definition clean_nova_group :: "table \<Rightarrow> error + table" where
  "clean_nova_group df =
     require ''nova_group'' df (\<lambda>df.
       let df = assign ''nova_group'' (\<lambda>r. fillna (Text ''unknown'') (r ''nova_group'')) df;
           df = assign ''nova_group_label'' (\<lambda>r. map_dict nova_map (r ''nova_group'')) df
       in Inr df)"

subsection \<open>\<^verbatim>\<open>clean_nutriscore\<close>\<close>

definition nutri_map :: "(cell \<times> cell) list" where
  "nutri_map =
     [(Text ''a'', Num 1), (Text ''b'', Num 2), (Text ''c'', Num 3), (Text ''d'', Num 4),
      (Text ''e'', Num 5), (Text ''unknown'', Num 0)]"

definition clean_nutriscore :: "table \<Rightarrow> error + table" where
  "clean_nutriscore df =
     require ''nutriscore_grade'' df (\<lambda>df.
       let df = assign ''nutriscore_grade'' (\<lambda>r.
                  str_method lower
                    (replace_value [Text ''not-applicable''] (Text ''Unknown'')
                      (fillna (Text ''unknown'') (r ''nutriscore_grade'')))) df;
           df = assign ''nutriscore_numeric'' (\<lambda>r. map_dict nutri_map (r ''nutriscore_grade'')) df
       in drop_column ''environmental_score_score'' df)"

section \<open>Numeric sanitizer: \<^verbatim>\<open>clean_nutritional_columns\<close>\<close>

definition num_cols :: "string list" where
  "num_cols =
     [''energy-kcal_100g'', ''fat_100g'', ''saturated-fat_100g'', ''sugars_100g'',
      ''salt_100g'', ''proteins_100g'', ''fiber_100g'', ''carbohydrates_100g'']"

fun numbers :: "cell list \<Rightarrow> real list" where
  "numbers [] = []"
| "numbers (Num v # xs) = v # numbers xs"
| "numbers (x # xs) = numbers xs"

text \<open>
  \<^verbatim>\<open>Series.median()\<close> skips the missing entries; it is NaN when no entry is left, the
  middle entry of the sorted rest when their number is odd and the mean of the two middle
  ones when it is even.
\<close>

definition median :: "cell list \<Rightarrow> cell" where
  "median xs =
     (let s = sort (numbers xs); n = length s
      in if n = 0 then Missing
         else if odd n then Num (s ! (n div 2))
         else Num ((s ! (n div 2 - 1) + s ! (n div 2)) / 2))"

text \<open>The mask \<^verbatim>\<open>(df[col] < 0) | (df[col] > 1000)\<close>; a comparison with NaN is false.\<close>

definition out_of_range :: "cell \<Rightarrow> bool" where
  "out_of_range x = (case x of Num v \<Rightarrow> v < 0 \<or> v > 1000 | _ \<Rightarrow> False)"

definition is_text :: "cell \<Rightarrow> bool" where
  "is_text x = (case x of Text s \<Rightarrow> True | _ \<Rightarrow> False)"

text \<open>
  \<^verbatim>\<open>astype("float32")\<close>: a number is rounded to single precision, NaN stays NaN. The
  rounding is the parameter \<open>f32\<close>.
\<close>

definition astype_float32 :: "(real \<Rightarrow> real) \<Rightarrow> cell \<Rightarrow> cell" where
  "astype_float32 f32 x = (case x of Num v \<Rightarrow> Num (f32 v) | _ \<Rightarrow> x)"

text \<open>
  The body of the loop for one column. Comparing a text with a number raises TypeError.
\<close>

definition clean_numeric_column :: "(real \<Rightarrow> real) \<Rightarrow> string \<Rightarrow> table \<Rightarrow> error + table" where
  "clean_numeric_column f32 col df =
     require col df (\<lambda>df.
       if list_ex is_text (column_values col df) then Inl TypeError
       else
         let df = assign col (\<lambda>r. if out_of_range (r col) then Missing else r col) df;
             m = median (column_values col df);
             df = assign col (\<lambda>r. astype_float32 f32 (fillna m (r col))) df
         in Inr df)"

fun for_each_column ::
  "(string \<Rightarrow> table \<Rightarrow> error + table) \<Rightarrow> string list \<Rightarrow> table \<Rightarrow> error + table" where
  "for_each_column body [] df = Inr df"
| "for_each_column body (col # cols) df = bind_err (body col df) (for_each_column body cols)"

definition clean_nutritional_columns :: "(real \<Rightarrow> real) \<Rightarrow> table \<Rightarrow> error + table" where
  "clean_nutritional_columns f32 df = for_each_column (clean_numeric_column f32) num_cols df"

section \<open>Reporter: \<^verbatim>\<open>show_cleaning_summary\<close>\<close>

text \<open>
  What the reporter computes and prints: the shape of the cleaned table, the differences
  to the original shape, and the columns that still have missing entries with their
  counts, largest first, ten at most. It returns the table it was given.
\<close>

record summary =
  cleaned_shape :: "nat \<times> nat"
  removed_rows :: int
  removed_cols :: int
  missing_top :: "(string \<times> nat) list"

definition isnull_sum :: "table \<Rightarrow> (string \<times> nat) list" where
  "isnull_sum df = map (\<lambda>c. (c, length (filter (\<lambda>r. r c = Missing) (rows df)))) (columns df)"

definition show_cleaning_summary :: "table \<Rightarrow> nat \<times> nat \<Rightarrow> summary \<times> table" where
  "show_cleaning_summary df original_shape =
     (let cleaned = shape df;
          missing = filter (\<lambda>(c, n). n > 0) (isnull_sum df);
          missing = rev (sort_key snd missing)
      in (\<lparr>cleaned_shape = cleaned,
           removed_rows = int (fst original_shape) - int (fst cleaned),
           removed_cols = int (snd original_shape) - int (snd cleaned),
           missing_top = take 10 missing\<rparr>, df))"

section \<open>Deduplicator and pipeline\<close>

text \<open>
  \<^verbatim>\<open>df.duplicated()\<close> marks a row that equals an earlier row in every column; missing
  entries count as equal. \<^verbatim>\<open>df.drop_duplicates()\<close> keeps the rows that are not marked.
\<close>

fun duplicated_from :: "cell list list \<Rightarrow> cell list list \<Rightarrow> bool list" where
  "duplicated_from seen [] = []"
| "duplicated_from seen (k # ks) = (k \<in> set seen) # duplicated_from (k # seen) ks"

definition duplicated :: "table \<Rightarrow> bool list" where
  "duplicated df = duplicated_from [] (map (\<lambda>r. map r (columns df)) (rows df))"

definition drop_duplicates :: "table \<Rightarrow> table" where
  "drop_duplicates df =
     \<lparr>columns = columns df,
      rows = map snd (filter (\<lambda>(d, r). \<not> d) (zip (duplicated df) (rows df)))\<rparr>"

text \<open>The cleaning stages of \<^verbatim>\<open>run_pipeline\<close>, in the order of the source.\<close>

definition cleaning_stages ::
  "(string \<Rightarrow> string) \<Rightarrow> (real \<Rightarrow> real) \<Rightarrow> table \<Rightarrow> error + table" where
  "cleaning_stages charref f32 df =
     bind_err (clean_product_name charref df) (\<lambda>df.
     bind_err (clean_brands charref df) (\<lambda>df.
     bind_err (clean_categories df) (\<lambda>df.
     bind_err (clean_countries df) (\<lambda>df.
     bind_err (clean_ingredients_labels_packaging df) (\<lambda>df.
     bind_err (clean_nutriscore df) (\<lambda>df.
     bind_err (clean_nova_group df) (\<lambda>df.
     clean_nutritional_columns f32 df)))))))"

text \<open>
  \<^verbatim>\<open>run_pipeline\<close> on the loaded table: what it logs as the number of duplicate rows,
  the table it hands to \<^verbatim>\<open>save_data\<close>, what the reporter prints and the table the
  reporter returns.
\<close>

record run =
  duplicate_rows :: nat
  saved :: table
  printed :: summary
  final :: table

definition run_pipeline ::
  "(string \<Rightarrow> string) \<Rightarrow> (real \<Rightarrow> real) \<Rightarrow> table \<Rightarrow> error + run" where
  "run_pipeline charref f32 loaded =
     (let dups = length (filter (\<lambda>d. d) (duplicated loaded));
          df = drop_duplicates loaded;
          original_shape = shape df
      in bind_err (cleaning_stages charref f32 df) (\<lambda>df.
           let (report, df') = show_cleaning_summary df original_shape
           in Inr \<lparr>duplicate_rows = dups, saved = df, printed = report, final = df'\<rparr>))"

section \<open>Notions of the specification\<close>

text \<open>
  In the words of the specification: the valid values of a numeric column are its numbers
  within \<open>[0, 1000]\<close>, and the replacement value is the median of the valid values alone.
\<close>

definition valid_values :: "cell list \<Rightarrow> real list" where
  "valid_values xs = filter (\<lambda>v. 0 \<le> v \<and> v \<le> 1000) (numbers xs)"

definition median_of_valid :: "cell list \<Rightarrow> cell" where
  "median_of_valid xs = median (map Num (valid_values xs))"

definition in_range :: "cell \<Rightarrow> bool" where
  "in_range x = (case x of Num v \<Rightarrow> 0 \<le> v \<and> v \<le> 1000 | _ \<Rightarrow> False)"

text \<open>What one pass of the loop of the sanitizer does to a cell, given the fill value \<open>m\<close>.\<close>

definition sanitize :: "(real \<Rightarrow> real) \<Rightarrow> cell \<Rightarrow> cell \<Rightarrow> cell" where
  "sanitize f32 m x = astype_float32 f32 (fillna m (if out_of_range x then Missing else x))"

text \<open>
  The lines 52 and 53 of the source on one cell: the product name unescaped, stripped and
  title-cased, which is what the row filter of \<^verbatim>\<open>clean_product_name\<close> compares with
  \<^verbatim>\<open>"Xxx"\<close>.
\<close>

definition product_name_text :: "(string \<Rightarrow> string) \<Rightarrow> cell \<Rightarrow> cell" where
  "product_name_text charref x =
     (case x of Text s \<Rightarrow> Text (title (strip (html_unescape charref s))) | _ \<Rightarrow> Missing)"

definition is_num :: "cell \<Rightarrow> bool" where
  "is_num x = (case x of Num v \<Rightarrow> True | _ \<Rightarrow> False)"


text \<open>
  The columns the pipeline reads, and the cell types it can work on: no number among the
  product names and brands (\<^verbatim>\<open>html.unescape\<close> would raise) and no text in the numeric
  columns (the comparison would raise).
\<close>

definition expected_columns :: "string list" where
  "expected_columns =
     [''product_name'', ''brands'', ''categories'', ''countries'', ''ingredients_text'', ''labels'',
      ''packaging'', ''nutriscore_grade'', ''nova_group'', ''environmental_score_score'']
     @ num_cols"

definition well_typed :: "table \<Rightarrow> bool" where
  "well_typed df \<longleftrightarrow>
     list_all (\<lambda>x. \<not> is_num x) (column_values ''product_name'' df) \<and>
     list_all (\<lambda>x. \<not> is_num x) (column_values ''brands'' df) \<and>
     list_all (\<lambda>c. list_all (\<lambda>x. \<not> is_text x) (column_values c df)) num_cols"

section \<open>Example tables\<close>

text \<open>A row given by the cells of its columns.\<close>

definition row_of :: "(string \<times> cell) list \<Rightarrow> row" where
  "row_of kvs c = (case map_of kvs c of Some v \<Rightarrow> v | None \<Rightarrow> Missing)"

definition nova_sample :: table where
  "nova_sample =
     \<lparr>columns = [''nova_group''],
      rows = [row_of [(''nova_group'', Num 1)], row_of [(''nova_group'', Num 4)],
              row_of [(''nova_group'', Missing)], row_of [(''nova_group'', Num 5)]]\<rparr>"

definition nutri_sample :: table where
  "nutri_sample =
     \<lparr>columns = [''nutriscore_grade'', ''environmental_score_score''],
      rows = [row_of [(''nutriscore_grade'', Text ''a''), (''environmental_score_score'', Num 40)],
              row_of [(''nutriscore_grade'', Missing)],
              row_of [(''nutriscore_grade'', Text ''not-applicable'')]]\<rparr>"

definition nutri_sample_dropped :: table where
  "nutri_sample_dropped =
     \<lparr>columns = [''nutriscore_grade''],
      rows = [row_of [(''nutriscore_grade'', Text ''a'')]]\<rparr>"


text \<open>
  The numbers of the tables below are single-precision values, which the conversion to
  \<^verbatim>\<open>float32\<close> leaves as they are.
\<close>

definition no_rounding :: "real \<Rightarrow> real" where
  "no_rounding v = v"

definition numeric_row :: "cell \<Rightarrow> cell \<Rightarrow> row" where
  "numeric_row energy fat =
     row_of [(''energy-kcal_100g'', energy), (''fat_100g'', fat), (''saturated-fat_100g'', Num 1),
       (''sugars_100g'', Num 2), (''salt_100g'', Num 0), (''proteins_100g'', Num 3),
       (''fiber_100g'', Num 4), (''carbohydrates_100g'', Num 5)]"

definition numeric_sample :: table where
  "numeric_sample =
     \<lparr>columns = num_cols,
      rows = [numeric_row (Num 100) Missing, numeric_row (Num 2000) Missing,
              numeric_row Missing (Num (-1)), numeric_row (Num 300) Missing]\<rparr>"

text \<open>The texts of the tables below hold no character reference.\<close>

definition no_references :: "string \<Rightarrow> string" where
  "no_references s = s"


definition sample_row :: "cell \<Rightarrow> cell \<Rightarrow> row" where
  "sample_row name energy =
     row_of [(''product_name'', name), (''brands'', Text ''acme''),
       (''categories'', Text ''en:beverages, teas''), (''countries'', Text ''en:fr''),
       (''ingredients_text'', Text ''Water,  tea''), (''labels'', Text ''en:organic''),
       (''packaging'', Text ''box''), (''nutriscore_grade'', Text ''a''), (''nova_group'', Num 1),
       (''environmental_score_score'', Num 50), (''energy-kcal_100g'', energy),
       (''fat_100g'', Num 0), (''saturated-fat_100g'', Num 0), (''sugars_100g'', Num 0),
       (''salt_100g'', Num 0), (''proteins_100g'', Num 0), (''fiber_100g'', Num 0),
       (''carbohydrates_100g'', Num 0)]"

definition pipeline_sample :: table where
  "pipeline_sample =
     \<lparr>columns = expected_columns,
      rows = [sample_row (Text ''green tea'') (Num 1), sample_row (Text ''green tea'') (Num 1),
              sample_row (Text ''XXX'') (Num 2), sample_row Missing (Num 3)]\<rparr>"

section \<open>Properties\<close>

subsection \<open>Assignments and checks\<close>

lemma require_Inr: "require c df k = Inr df' \<longleftrightarrow> c \<in> set (columns df) \<and> k df = Inr df'"
  by (simp add: require_def)

lemma rows_assign: "rows (assign c f df) = map (\<lambda>r. r(c := f r)) (rows df)"
  by (simp add: assign_def)

lemma columns_assign: "set (columns (assign c f df)) = insert c (set (columns df))"
  by (auto simp: assign_def)

lemma bind_err_Inr: "bind_err m k = Inr y \<longleftrightarrow> (\<exists>x. m = Inr x \<and> k x = Inr y)"
  by (cases m) (simp_all add: bind_err_def)

subsection \<open>NOVA labels\<close>

lemma clean_nova_group_rows:
  assumes "''nova_group'' \<in> set (columns df)"
  shows "clean_nova_group df =
     Inr (assign ''nova_group_label'' (\<lambda>r. map_dict nova_map (r ''nova_group''))
            (assign ''nova_group'' (\<lambda>r. fillna (Text ''unknown'') (r ''nova_group'')) df))"
  using assms by (simp add: clean_nova_group_def require_def Let_def)

text \<open>
  C8, as stated, at a concrete table: the fourth row of \<open>nova_sample\<close> has the NOVA group 5,
  which is outside the known set. The stage succeeds and the label of that row is
  missing, not \<^verbatim>\<open>"Unknown"\<close>.
\<close>

theorem nova_unknown_counterexample:
  "(rows nova_sample ! 3) ''nova_group'' = Num 5 \<and>
   \<not> isl (clean_nova_group nova_sample) \<and>
   (rows (projr (clean_nova_group nova_sample)) ! 3) ''nova_group_label'' \<noteq> Text ''Unknown'' \<and>
   (rows (projr (clean_nova_group nova_sample)) ! 3) ''nova_group_label'' = Missing"
  by (simp add: clean_nova_group_def require_def Let_def nova_sample_def
        assign_def fillna_def map_dict_def nova_map_def row_of_def)

text \<open>
  C8, amended: on every table with a \<open>nova_group\<close> column the NOVA stage succeeds and keeps
  the rows; the group 1 gets the label \<^verbatim>\<open>"Unprocessed or Minimally Processed"\<close>, the
  group 4 the label \<^verbatim>\<open>"Ultra-Processed Foods"\<close>, a missing group the label
  \<^verbatim>\<open>"Unknown"\<close>, and every other value outside 1, 2, 3, 4 (the text \<^verbatim>\<open>"unknown"\<close>
  apart) a missing label.
\<close>

theorem nova_labels:
  assumes "''nova_group'' \<in> set (columns df)"
  shows "\<exists>df'. clean_nova_group df = Inr df' \<and> length (rows df') = length (rows df) \<and>
     (\<forall>i < length (rows df).
        ((rows df ! i) ''nova_group'' = Num 1 \<longrightarrow>
           (rows df' ! i) ''nova_group_label'' = Text ''Unprocessed or Minimally Processed'') \<and>
        ((rows df ! i) ''nova_group'' = Num 4 \<longrightarrow>
           (rows df' ! i) ''nova_group_label'' = Text ''Ultra-Processed Foods'') \<and>
        ((rows df ! i) ''nova_group'' = Missing \<longrightarrow>
           (rows df' ! i) ''nova_group_label'' = Text ''Unknown'') \<and>
        ((rows df ! i) ''nova_group'' \<notin> {Num 1, Num 2, Num 3, Num 4, Missing, Text ''unknown''} \<longrightarrow>
           (rows df' ! i) ''nova_group_label'' = Missing))"
  unfolding clean_nova_group_rows [OF assms]
  by (auto simp: rows_assign fillna_def map_dict_def nova_map_def)

theorem nova_labels_witness:
  "\<not> isl (clean_nova_group nova_sample) \<and>
   column_values ''nova_group_label'' (projr (clean_nova_group nova_sample)) =
     [Text ''Unprocessed or Minimally Processed'', Text ''Ultra-Processed Foods'',
      Text ''Unknown'', Missing]"
proof -
  have c: "''nova_group'' \<in> set (columns nova_sample)"
    by (simp add: nova_sample_def)
  from nova_labels [OF c] obtain df' where
    r: "clean_nova_group nova_sample = Inr df'" and
    l: "length (rows df') = length (rows nova_sample)" and
    a: "\<forall>i < length (rows nova_sample).
        ((rows nova_sample ! i) ''nova_group'' = Num 1 \<longrightarrow>
           (rows df' ! i) ''nova_group_label'' = Text ''Unprocessed or Minimally Processed'') \<and>
        ((rows nova_sample ! i) ''nova_group'' = Num 4 \<longrightarrow>
           (rows df' ! i) ''nova_group_label'' = Text ''Ultra-Processed Foods'') \<and>
        ((rows nova_sample ! i) ''nova_group'' = Missing \<longrightarrow>
           (rows df' ! i) ''nova_group_label'' = Text ''Unknown'') \<and>
        ((rows nova_sample ! i) ''nova_group''
            \<notin> {Num 1, Num 2, Num 3, Num 4, Missing, Text ''unknown''} \<longrightarrow>
           (rows df' ! i) ''nova_group_label'' = Missing)"
    by blast
  have n: "length (rows nova_sample) = 4"
    by (simp add: nova_sample_def)
  from a [rule_format, of 0] a [rule_format, of 1] a [rule_format, of 2] a [rule_format, of 3]
  have "(rows df' ! 0) ''nova_group_label'' = Text ''Unprocessed or Minimally Processed''"
       "(rows df' ! 1) ''nova_group_label'' = Text ''Ultra-Processed Foods''"
       "(rows df' ! 2) ''nova_group_label'' = Text ''Unknown''"
       "(rows df' ! 3) ''nova_group_label'' = Missing"
    by (simp_all add: nova_sample_def row_of_def)
  with l n r show ?thesis
    by (simp add: column_values_def list_eq_iff_nth_eq nth_Cons' less_Suc_eq numeral_eq_Suc)
qed

subsection \<open>NutriScore\<close>

lemma drop_column_Inr:
  "drop_column c df = Inr df' \<longleftrightarrow>
     c \<in> set (columns df) \<and>
     df' = \<lparr>columns = filter (\<lambda>d. d \<noteq> c) (columns df), rows = rows df\<rparr>"
  by (auto simp: drop_column_def)

lemma lower_literals:
  "lower ''a'' = ''a''" "lower ''unknown'' = ''unknown''" "lower ''Unknown'' = ''unknown''"
  by (simp_all add: lower_def lower_char_def is_upper_def char_of_def bit_Suc_0_iff)

lemma clean_nutriscore_rows:
  assumes "clean_nutriscore df = Inr df'"
  shows "rows df' = map (\<lambda>r. r(''nutriscore_grade'' := str_method lower
                    (replace_value [Text ''not-applicable''] (Text ''Unknown'')
                      (fillna (Text ''unknown'') (r ''nutriscore_grade''))),
                ''nutriscore_numeric'' := map_dict nutri_map (str_method lower
                    (replace_value [Text ''not-applicable''] (Text ''Unknown'')
                      (fillna (Text ''unknown'') (r ''nutriscore_grade'')))))) (rows df)"
  using assms
  by (auto simp: clean_nutriscore_def require_Inr Let_def drop_column_Inr rows_assign)

lemma nutri_sample_result:
  "clean_nutriscore nutri_sample = Inr (projr (clean_nutriscore nutri_sample))"
  by (simp add: clean_nutriscore_def require_def Let_def drop_column_def nutri_sample_def
        assign_def)

text \<open>
  C7: when the NutriScore stage succeeds it keeps the rows, every row that ends with the
  grade \<^verbatim>\<open>"a"\<close> (and every row that came with it) has \<open>nutriscore_numeric\<close> 1, and every
  row whose grade was missing or \<^verbatim>\<open>"not-applicable"\<close> ends with the grade
  \<^verbatim>\<open>"unknown"\<close> and \<open>nutriscore_numeric\<close> 0.
\<close>

theorem nutriscore_numeric:
  assumes "clean_nutriscore df = Inr df'"
  shows "length (rows df') = length (rows df) \<and>
     (\<forall>r \<in> set (rows df').
        r ''nutriscore_grade'' = Text ''a'' \<longrightarrow> r ''nutriscore_numeric'' = Num 1) \<and>
     (\<forall>i < length (rows df).
        ((rows df ! i) ''nutriscore_grade'' = Text ''a'' \<longrightarrow>
          (rows df' ! i) ''nutriscore_numeric'' = Num 1) \<and>
        ((rows df ! i) ''nutriscore_grade'' = Missing \<or>
         (rows df ! i) ''nutriscore_grade'' = Text ''not-applicable'' \<longrightarrow>
          (rows df' ! i) ''nutriscore_grade'' = Text ''unknown'' \<and>
          (rows df' ! i) ''nutriscore_numeric'' = Num 0))"
  unfolding clean_nutriscore_rows [OF assms]
  by (auto simp: fillna_def replace_value_def str_method_def map_dict_def nutri_map_def
        lower_literals split: cell.splits)

theorem nutriscore_numeric_witness:
  "\<not> isl (clean_nutriscore nutri_sample) \<and>
   (rows (projr (clean_nutriscore nutri_sample)) ! 0) ''nutriscore_numeric'' = Num 1 \<and>
   (rows (projr (clean_nutriscore nutri_sample)) ! 1) ''nutriscore_numeric'' = Num 0 \<and>
   (rows (projr (clean_nutriscore nutri_sample)) ! 2) ''nutriscore_numeric'' = Num 0"
proof -
  let ?out = "projr (clean_nutriscore nutri_sample)"
  note t = nutriscore_numeric [OF nutri_sample_result]
  have n: "length (rows nutri_sample) = 3"
    by (simp add: nutri_sample_def)
  have g: "(rows ?out ! 0) ''nutriscore_grade'' = Text ''a''"
    by (simp add: clean_nutriscore_def require_def Let_def drop_column_def nutri_sample_def
          assign_def row_of_def fillna_def replace_value_def str_method_def lower_literals)
  have "rows ?out ! 0 \<in> set (rows ?out)"
    using t n by simp
  with t g have "(rows ?out ! 0) ''nutriscore_numeric'' = Num 1"
    by blast
  moreover from t [THEN conjunct2, THEN conjunct2, rule_format, of 1]
  have "(rows ?out ! 1) ''nutriscore_numeric'' = Num 0"
    by (simp add: nutri_sample_def row_of_def)
  moreover from t [THEN conjunct2, THEN conjunct2, rule_format, of 2]
  have "(rows ?out ! 2) ''nutriscore_numeric'' = Num 0"
    by (simp add: nutri_sample_def row_of_def)
  moreover have "\<not> isl (clean_nutriscore nutri_sample)"
    using nutri_sample_result by (metis sum.disc(2))
  ultimately show ?thesis by simp
qed

text \<open>
  C5: a successful NutriScore stage had the column \<open>environmental_score_score\<close> and
  returns a table without it; on every table without that column the stage raises
  KeyError (for that column or, when \<open>nutriscore_grade\<close> is absent as well, for
  \<open>nutriscore_grade\<close>, which is read first).
\<close>

theorem nutriscore_drops_column:
  "(clean_nutriscore df = Inr df' \<longrightarrow>
      ''environmental_score_score'' \<in> set (columns df) \<and>
      ''environmental_score_score'' \<notin> set (columns df')) \<and>
   (''environmental_score_score'' \<notin> set (columns df) \<longrightarrow>
      clean_nutriscore df =
        Inl (KeyError (if ''nutriscore_grade'' \<in> set (columns df)
                       then ''environmental_score_score'' else ''nutriscore_grade'')))"
  by (auto simp: clean_nutriscore_def require_def Let_def drop_column_def columns_assign)

theorem nutriscore_drops_column_witness:
  "\<not> isl (clean_nutriscore nutri_sample) \<and>
   ''environmental_score_score'' \<notin> set (columns (projr (clean_nutriscore nutri_sample))) \<and>
   ''environmental_score_score'' \<notin> set (columns nutri_sample_dropped) \<and>
   clean_nutriscore nutri_sample_dropped = Inl (KeyError ''environmental_score_score'')"
proof -
  have a: "''environmental_score_score'' \<notin> set (columns nutri_sample_dropped)"
    and b: "''nutriscore_grade'' \<in> set (columns nutri_sample_dropped)"
    by (simp_all add: nutri_sample_dropped_def)
  have c: "\<not> isl (clean_nutriscore nutri_sample)"
    using nutri_sample_result by (metis sum.disc(2))
  from nutriscore_drops_column [of nutri_sample "projr (clean_nutriscore nutri_sample)"]
    nutri_sample_result
  have d: "''environmental_score_score''
             \<notin> set (columns (projr (clean_nutriscore nutri_sample)))"
    by blast
  from nutriscore_drops_column [of nutri_sample_dropped nutri_sample_dropped] a b
  have e: "clean_nutriscore nutri_sample_dropped = Inl (KeyError ''environmental_score_score'')"
    by simp
  from a c d e show ?thesis by simp
qed

subsection \<open>Reporter\<close>

text \<open>
  C9: the reporter returns the table it was given, whatever the table and the original
  shape; and in \<^verbatim>\<open>run_pipeline\<close> the table that is saved is the result of the cleaning
  stages on the deduplicated input alone, and the table left after the reporter is the
  saved one: nothing the reporter computes reaches a stage or the output.
\<close>

theorem reporter_returns_input:
  "snd (show_cleaning_summary df original_shape) = df \<and>
   map_sum id saved (run_pipeline charref f32 loaded) =
     cleaning_stages charref f32 (drop_duplicates loaded) \<and>
   map_sum id final (run_pipeline charref f32 loaded) =
     map_sum id saved (run_pipeline charref f32 loaded)"
  by (cases "cleaning_stages charref f32 (drop_duplicates loaded)")
     (simp_all add: show_cleaning_summary_def run_pipeline_def Let_def bind_err_def)

subsection \<open>Countries\<close>






lemma first_error_None: "first_error xs = None \<longleftrightarrow> (\<forall>x \<in> set xs. \<not> isl x)"
  by (induction xs rule: first_error.induct) auto

lemma first_error_Some: "first_error xs = Some e \<Longrightarrow> Inl e \<in> set xs"
  by (induction xs rule: first_error.induct) auto

lemma apply_column_Inr:
  "apply_column c f df = Inr df' \<longleftrightarrow>
     (\<forall>r \<in> set (rows df). \<not> isl (f (r c))) \<and> df' = assign c (\<lambda>r. projr (f (r c))) df"
proof (cases "first_error (map (\<lambda>r. f (r c)) (rows df))")
  case None
  then have n: "\<forall>r \<in> set (rows df). \<not> isl (f (r c))"
    by (auto simp: first_error_None)
  then have "map (\<lambda>r. r(c := case f (r c) of Inr v \<Rightarrow> v | Inl e \<Rightarrow> r c)) (rows df) =
      map (\<lambda>r. r(c := projr (f (r c)))) (rows df)"
    by (auto split: sum.splits)
  with None n show ?thesis
    by (auto simp: apply_column_def assign_def)
next
  case (Some e)
  then have "Inl e \<in> set (map (\<lambda>r. f (r c)) (rows df))"
    by (rule first_error_Some)
  then have "\<exists>r \<in> set (rows df). isl (f (r c))"
    by (metis (mono_tags, lifting) image_iff list.set_map sum.disc(1))
  with Some show ?thesis
    by (auto simp: apply_column_def)
qed

lemma countries_text_is_text: "\<exists>s. countries_text x = Text s"
  by (cases x) (simp_all add: countries_text_def fillna_def str_method_def comma_spacing_def)

lemma map_countries_total: "\<not> isl (map_countries (countries_text x))"
  using countries_text_is_text [of x] by (auto simp: map_countries_def)

lemma clean_countries_eq:
  "clean_countries df =
     require ''countries'' df (\<lambda>df.
       apply_column ''countries'' map_countries
         (assign ''countries'' (\<lambda>r. countries_text (r ''countries'')) df))"
proof -
  have "assign ''countries'' (\<lambda>r. fillna (Text ''Unknown'') (r ''countries''))
          (assign ''countries'' (\<lambda>r. str_method title (comma_spacing (str_method strip (r ''countries''))))
            (assign ''countries'' (\<lambda>r. str_method strip_codes (r ''countries'')) d)) =
        assign ''countries'' (\<lambda>r. countries_text (r ''countries'')) d" for d
    by (simp add: assign_def countries_text_def comp_def)
  then show ?thesis
    by (simp add: clean_countries_def Let_def)
qed


lemma clean_countries_succeeds:
  assumes "''countries'' \<in> set (columns df)"
  shows "\<exists>df'. clean_countries df = Inr df'"
  using assms
  by (simp add: clean_countries_eq require_def apply_column_Inr rows_assign map_countries_total)





subsection \<open>Numeric sanitizer\<close>

lemma numbers_map_Num: "numbers (map Num vs) = vs"
  by (induction vs) simp_all

lemma numbers_masked:
  "numbers (map (\<lambda>x. if out_of_range x then Missing else x) xs) = valid_values xs"
  by (induction xs rule: numbers.induct) (auto simp: valid_values_def out_of_range_def)

lemma median_masked:
  "median (map (\<lambda>x. if out_of_range x then Missing else x) xs) = median_of_valid xs"
  by (simp add: median_def median_of_valid_def numbers_masked numbers_map_Num)

lemma clean_numeric_column_Inr:
  assumes "clean_numeric_column f32 col df = Inr df'"
  shows "col \<in> set (columns df)" and "columns df' = columns df"
    and "rows df' =
      map (\<lambda>r. r(col := sanitize f32 (median_of_valid (column_values col df)) (r col))) (rows df)"
proof -
  from assms show c: "col \<in> set (columns df)"
    by (simp add: clean_numeric_column_def require_Inr)
  have m: "column_values col (assign col (\<lambda>r. if out_of_range (r col) then Missing else r col) df)
      = map (\<lambda>x. if out_of_range x then Missing else x) (column_values col df)"
    by (simp add: column_values_def assign_def)
  from assms c show "columns df' = columns df"
    by (auto simp: clean_numeric_column_def require_Inr Let_def assign_def split: if_splits)
  from assms c show "rows df' =
      map (\<lambda>r. r(col := sanitize f32 (median_of_valid (column_values col df)) (r col))) (rows df)"
    by (auto simp: clean_numeric_column_def require_Inr Let_def m median_masked rows_assign
          sanitize_def split: if_splits)
qed

lemma clean_numeric_column_values:
  assumes "clean_numeric_column f32 col df = Inr df'"
  shows "column_values c df' =
     (if c = col then map (sanitize f32 (median_of_valid (column_values col df))) (column_values col df)
      else column_values c df)"
  by (simp add: column_values_def clean_numeric_column_Inr(3) [OF assms])

lemma for_each_numeric_other:
  assumes "for_each_column (clean_numeric_column f32) cols df = Inr df'" and "c \<notin> set cols"
  shows "column_values c df' = column_values c df"
  using assms
proof (induction cols arbitrary: df)
  case Nil
  then show ?case by simp
next
  case (Cons a cols)
  from Cons.prems(1) obtain d where d: "clean_numeric_column f32 a df = Inr d"
    and r: "for_each_column (clean_numeric_column f32) cols d = Inr df'"
    by (auto simp: bind_err_Inr)
  from Cons.prems(2) have "c \<noteq> a" "c \<notin> set cols" by auto
  with Cons.IH [OF r] clean_numeric_column_values [OF d, of c] show ?case by simp
qed

lemma for_each_numeric_column:
  assumes "for_each_column (clean_numeric_column f32) cols df = Inr df'"
    and "col \<in> set cols" and "distinct cols"
  shows "column_values col df' =
     map (sanitize f32 (median_of_valid (column_values col df))) (column_values col df)"
  using assms
proof (induction cols arbitrary: df)
  case Nil
  then show ?case by simp
next
  case (Cons a cols)
  from Cons.prems(1) obtain d where d: "clean_numeric_column f32 a df = Inr d"
    and r: "for_each_column (clean_numeric_column f32) cols d = Inr df'"
    by (auto simp: bind_err_Inr)
  show ?case
  proof (cases "col = a")
    case True
    with Cons.prems(3) have "col \<notin> set cols" by simp
    from for_each_numeric_other [OF r this] clean_numeric_column_values [OF d, of col] True
    show ?thesis by simp
  next
    case False
    with Cons.prems have "col \<in> set cols" "distinct cols" by auto
    from Cons.IH [OF r this] clean_numeric_column_values [OF d, of col] False
    show ?thesis by simp
  qed
qed

lemma for_each_numeric_length:
  assumes "for_each_column (clean_numeric_column f32) cols df = Inr df'"
  shows "length (rows df') = length (rows df)"
  using assms
proof (induction cols arbitrary: df)
  case Nil
  then show ?case by simp
next
  case (Cons a cols)
  from Cons.prems(1) obtain d where d: "clean_numeric_column f32 a df = Inr d"
    and r: "for_each_column (clean_numeric_column f32) cols d = Inr df'"
    by (auto simp: bind_err_Inr)
  from Cons.IH [OF r] clean_numeric_column_Inr(3) [OF d] show ?case by simp
qed

lemma distinct_num_cols: "distinct num_cols"
  by (simp add: num_cols_def)

lemma median_in_range:
  assumes "vs \<noteq> []" and "\<forall>v \<in> set vs. 0 \<le> v \<and> v \<le> 1000"
  shows "\<exists>m. median (map Num vs) = Num m \<and> 0 \<le> m \<and> m \<le> 1000"
proof -
  let ?s = "sort vs"
  let ?n = "length ?s"
  have n: "?n > 0" using assms(1) by simp
  have r: "0 \<le> ?s ! i \<and> ?s ! i \<le> 1000" if "i < ?n" for i
  proof -
    from that have "?s ! i \<in> set ?s" by (rule nth_mem)
    with assms(2) show ?thesis by simp
  qed
  have a: "?n div 2 < ?n" using n by simp
  have b: "?n div 2 - 1 < ?n" using a by (rule less_imp_diff_less)
  have m: "median (map Num vs) =
      (if odd ?n then Num (?s ! (?n div 2))
       else Num ((?s ! (?n div 2 - 1) + ?s ! (?n div 2)) / 2))"
  proof -
    have "?s \<noteq> []"
      using assms(1) by (metis length_0_conv length_sort)
    then show ?thesis
      by (simp add: median_def numbers_map_Num Let_def)
  qed
  show ?thesis
  proof (cases "odd ?n")
    case True
    with m r [OF a] show ?thesis by simp
  next
    case False
    let ?m = "(?s ! (?n div 2 - 1) + ?s ! (?n div 2)) / 2"
    from r [OF a] r [OF b] have bm: "0 \<le> ?m \<and> ?m \<le> 1000" by simp
    from m False have em: "median (map Num vs) = Num ?m" by simp
    from em bm show ?thesis by blast
  qed
qed

lemma median_of_valid_cases:
  "(valid_values xs = [] \<and> median_of_valid xs = Missing) \<or>
   (valid_values xs \<noteq> [] \<and> (\<exists>m. median_of_valid xs = Num m \<and> 0 \<le> m \<and> m \<le> 1000))"
proof (cases "valid_values xs = []")
  case True
  then show ?thesis by (simp add: median_of_valid_def median_def)
next
  case False
  have "\<forall>v \<in> set (valid_values xs). 0 \<le> v \<and> v \<le> 1000"
    by (simp add: valid_values_def)
  from median_in_range [OF False this] False show ?thesis
    by (simp add: median_of_valid_def)
qed

lemma numbers_set: "v \<in> set (numbers xs) \<longleftrightarrow> Num v \<in> set xs"
  by (induction xs rule: numbers.induct) auto

lemma clean_numeric_column_no_text:
  assumes "clean_numeric_column f32 col df = Inr df'"
  shows "\<not> list_ex is_text (column_values col df)"
  using assms by (auto simp: clean_numeric_column_def require_Inr split: if_splits)

lemma for_each_numeric_no_text:
  assumes "for_each_column (clean_numeric_column f32) cols df = Inr df'"
    and "col \<in> set cols" and "distinct cols"
  shows "\<not> list_ex is_text (column_values col df)"
  using assms
proof (induction cols arbitrary: df)
  case Nil
  then show ?case by simp
next
  case (Cons a cols)
  from Cons.prems(1) obtain d where d: "clean_numeric_column f32 a df = Inr d"
    and r: "for_each_column (clean_numeric_column f32) cols d = Inr df'"
    by (auto simp: bind_err_Inr)
  show ?case
  proof (cases "col = a")
    case True
    with clean_numeric_column_no_text [OF d] show ?thesis by simp
  next
    case False
    with Cons.prems have "col \<in> set cols" "distinct cols" by auto
    from Cons.IH [OF r this] clean_numeric_column_values [OF d, of col] False
    show ?thesis by simp
  qed
qed

text \<open>
  C4: when the sanitizer succeeds it keeps the rows, and in each of the 8 columns every
  entry that was out of range or missing is replaced by one and the same value, the median
  of the column's valid values (those within \<open>[0, 1000]\<close>; the out-of-range entries take no
  part in it), while every other entry is kept; all of them are then converted to
  \<^verbatim>\<open>float32\<close>.
\<close>

theorem sanitizer_median:
  assumes "clean_nutritional_columns f32 df = Inr df'" and "col \<in> set num_cols"
  shows "length (rows df') = length (rows df) \<and>
     (\<forall>i < length (rows df).
        (rows df' ! i) col =
          astype_float32 f32
            (if out_of_range ((rows df ! i) col) \<or> (rows df ! i) col = Missing
             then median_of_valid (column_values col df) else (rows df ! i) col))"
proof -
  from assms(1) have e: "for_each_column (clean_numeric_column f32) num_cols df = Inr df'"
    by (simp add: clean_nutritional_columns_def)
  have l: "length (rows df') = length (rows df)"
    by (rule for_each_numeric_length [OF e])
  have c: "column_values col df' =
     map (sanitize f32 (median_of_valid (column_values col df))) (column_values col df)"
    by (rule for_each_numeric_column [OF e assms(2) distinct_num_cols])
  have "(rows df' ! i) col =
          astype_float32 f32
            (if out_of_range ((rows df ! i) col) \<or> (rows df ! i) col = Missing
             then median_of_valid (column_values col df) else (rows df ! i) col)"
    if i: "i < length (rows df)" for i
  proof -
    from i l have "(rows df' ! i) col = column_values col df' ! i"
      by (simp add: column_values_def)
    also from i have "\<dots> = sanitize f32 (median_of_valid (column_values col df)) ((rows df ! i) col)"
      unfolding c by (simp add: column_values_def)
    finally show ?thesis
      by (simp add: sanitize_def fillna_def)
  qed
  with l show ?thesis by blast
qed

text \<open>
  C1, amended: when the sanitizer succeeds, and the conversion to \<^verbatim>\<open>float32\<close> maps
  \<open>[0, 1000]\<close> into itself, each of the 8 columns that had at least one valid value (a
  number within \<open>[0, 1000]\<close>) holds only numbers within \<open>[0, 1000]\<close> afterwards and no
  missing entry; a column without any valid value is entirely missing afterwards.
\<close>

theorem sanitizer_range:
  assumes "clean_nutritional_columns f32 df = Inr df'" and "col \<in> set num_cols"
    and "\<forall>v. 0 \<le> v \<and> v \<le> 1000 \<longrightarrow> 0 \<le> f32 v \<and> f32 v \<le> 1000"
  shows "(valid_values (column_values col df) \<noteq> [] \<longrightarrow>
            list_all in_range (column_values col df')) \<and>
         (valid_values (column_values col df) = [] \<longrightarrow>
            (\<forall>x \<in> set (column_values col df'). x = Missing))"
proof -
  from assms(1) have e: "for_each_column (clean_numeric_column f32) num_cols df = Inr df'"
    by (simp add: clean_nutritional_columns_def)
  have c: "column_values col df' =
     map (sanitize f32 (median_of_valid (column_values col df))) (column_values col df)"
    by (rule for_each_numeric_column [OF e assms(2) distinct_num_cols])
  let ?m = "median_of_valid (column_values col df)"
  have nt: "\<not> is_text x" if "x \<in> set (column_values col df)" for x
    using for_each_numeric_no_text [OF e assms(2) distinct_num_cols] that
    by (simp add: list_ex_iff)
  have 1: "in_range (sanitize f32 ?m x)"
    if v: "valid_values (column_values col df) \<noteq> []" and x: "x \<in> set (column_values col df)" for x
  proof -
    from median_of_valid_cases [of "column_values col df"] v
    obtain m where m: "?m = Num m" "0 \<le> m" "m \<le> 1000" by auto
    show ?thesis
    proof (cases x)
      case Missing
      with m assms(3) show ?thesis
        by (simp add: sanitize_def out_of_range_def fillna_def astype_float32_def in_range_def)
    next
      case (Text t)
      with nt [OF x] show ?thesis by (simp add: is_text_def)
    next
      case (Num w)
      with m assms(3) show ?thesis
        by (auto simp: sanitize_def out_of_range_def fillna_def astype_float32_def not_less
              in_range_def)
    qed
  qed
  have 2: "sanitize f32 ?m x = Missing"
    if v: "valid_values (column_values col df) = []" and x: "x \<in> set (column_values col df)" for x
  proof -
    from median_of_valid_cases [of "column_values col df"] v
    have m: "?m = Missing" by auto
    show ?thesis
    proof (cases x)
      case Missing
      with m show ?thesis
        by (simp add: sanitize_def out_of_range_def fillna_def astype_float32_def)
    next
      case (Text t)
      with nt [OF x] show ?thesis by (simp add: is_text_def)
    next
      case (Num w)
      from x Num have "w \<in> set (numbers (column_values col df))"
        by (simp add: numbers_set)
      with v have "\<not> (0 \<le> w \<and> w \<le> 1000)"
        by (auto simp: valid_values_def filter_empty_conv)
      with m Num show ?thesis
        by (auto simp: sanitize_def out_of_range_def fillna_def astype_float32_def)
    qed
  qed
  from 1 2 show ?thesis
    unfolding c by (auto simp: list_all_iff)
qed

lemma sanitize_no_text: "\<not> is_text m \<Longrightarrow> \<not> is_text x \<Longrightarrow> \<not> is_text (sanitize f32 m x)"
  by (cases x; cases m) (simp_all add: sanitize_def is_text_def fillna_def astype_float32_def)

lemma median_of_valid_no_text: "\<not> is_text (median_of_valid xs)"
  using median_of_valid_cases [of xs] by (auto simp: is_text_def)

lemma clean_numeric_column_succeeds:
  assumes "col \<in> set (columns df)" and "\<not> list_ex is_text (column_values col df)"
  shows "\<exists>d. clean_numeric_column f32 col df = Inr d"
  using assms by (simp add: clean_numeric_column_def require_def Let_def)

lemma for_each_numeric_succeeds:
  assumes "\<forall>c \<in> set cols. c \<in> set (columns df) \<and> \<not> list_ex is_text (column_values c df)"
  shows "\<exists>df'. for_each_column (clean_numeric_column f32) cols df = Inr df'"
  using assms
proof (induction cols arbitrary: df)
  case Nil
  then show ?case by simp
next
  case (Cons a cols)
  from Cons.prems clean_numeric_column_succeeds [of a df f32]
  obtain d where d: "clean_numeric_column f32 a df = Inr d" by auto
  have "c \<in> set (columns d) \<and> \<not> list_ex is_text (column_values c d)" if "c \<in> set cols" for c
  proof -
    from that Cons.prems have c: "c \<in> set (columns df)" "\<not> list_ex is_text (column_values c df)"
      by auto
    from c(2) have "\<not> list_ex is_text (column_values c d)"
      unfolding clean_numeric_column_values [OF d, of c]
      by (auto simp: list_ex_iff sanitize_no_text median_of_valid_no_text)
    with c(1) clean_numeric_column_Inr(2) [OF d] show ?thesis by simp
  qed
  then have "\<exists>df'. for_each_column (clean_numeric_column f32) cols d = Inr df'"
    by (intro Cons.IH) blast
  with d show ?case by (simp add: bind_err_def)
qed

lemma numeric_sample_columns:
  "column_values ''energy-kcal_100g'' numeric_sample = [Num 100, Num 2000, Missing, Num 300]"
  "column_values ''fat_100g'' numeric_sample = [Missing, Missing, Num (-1), Missing]"
  by (simp_all add: column_values_def numeric_sample_def numeric_row_def row_of_def)

lemma numeric_sample_result:
  "clean_nutritional_columns f32 numeric_sample =
     Inr (projr (clean_nutritional_columns f32 numeric_sample))"
proof -
  have "\<forall>c \<in> set num_cols. c \<in> set (columns numeric_sample) \<and>
      \<not> list_ex is_text (column_values c numeric_sample)"
    by (simp add: num_cols_def numeric_sample_def column_values_def numeric_row_def row_of_def
          is_text_def)
  from for_each_numeric_succeeds [OF this, of f32] show ?thesis
    by (auto simp: clean_nutritional_columns_def)
qed

lemma numeric_sample_medians:
  "valid_values [Num 100, Num 2000, Missing, Num 300] = [100, 300]"
  "median_of_valid [Num 100, Num 2000, Missing, Num 300] = Num 200"
  "valid_values [Missing, Missing, Num (-1), Missing] = []"
  "median_of_valid [Missing, Missing, Num (-1), Missing] = Missing"
  by (simp_all add: valid_values_def median_of_valid_def median_def)

text \<open>
  C1, as stated, at a concrete table: the column \<open>fat_100g\<close> of \<open>numeric_sample\<close> holds
  three missing entries and \<open>-1\<close>. The sanitizer succeeds, and every entry of that
  column is missing afterwards: the median of no values is NaN, and filling with NaN
  fills nothing.
\<close>

theorem sanitizer_all_missing_counterexample:
  "\<not> isl (clean_nutritional_columns no_rounding numeric_sample) \<and>
   column_values ''fat_100g'' numeric_sample = [Missing, Missing, Num (-1), Missing] \<and>
   column_values ''fat_100g'' (projr (clean_nutritional_columns no_rounding numeric_sample)) =
     [Missing, Missing, Missing, Missing]"
proof -
  note r = numeric_sample_result [of no_rounding]
  have e: "for_each_column (clean_numeric_column no_rounding) num_cols numeric_sample =
      Inr (projr (clean_nutritional_columns no_rounding numeric_sample))"
    using r by (simp add: clean_nutritional_columns_def)
  have "''fat_100g'' \<in> set num_cols" by (simp add: num_cols_def)
  from for_each_numeric_column [OF e this distinct_num_cols]
  have "column_values ''fat_100g'' (projr (clean_nutritional_columns no_rounding numeric_sample)) =
     [Missing, Missing, Missing, Missing]"
    by (simp add: numeric_sample_medians numeric_sample_columns sanitize_def out_of_range_def
          fillna_def astype_float32_def)
  moreover have "\<not> isl (clean_nutritional_columns no_rounding numeric_sample)"
    using r by (metis sum.disc(2))
  ultimately show ?thesis
    by (simp add: numeric_sample_columns)
qed

theorem sanitizer_range_witness:
  "\<not> isl (clean_nutritional_columns no_rounding numeric_sample) \<and>
   list_all in_range
     (column_values ''energy-kcal_100g'' (projr (clean_nutritional_columns no_rounding numeric_sample)))"
proof -
  note r = numeric_sample_result [of no_rounding]
  have c: "''energy-kcal_100g'' \<in> set num_cols" by (simp add: num_cols_def)
  have f: "\<forall>v. 0 \<le> v \<and> v \<le> 1000 \<longrightarrow> 0 \<le> no_rounding v \<and> no_rounding v \<le> 1000"
    by (simp add: no_rounding_def)
  have "\<not> isl (clean_nutritional_columns no_rounding numeric_sample)"
    using r by (metis sum.disc(2))
  with sanitizer_range [OF r c f] show ?thesis
    by (simp add: numeric_sample_columns numeric_sample_medians)
qed

theorem sanitizer_median_witness:
  "\<not> isl (clean_nutritional_columns no_rounding numeric_sample) \<and>
   (rows (projr (clean_nutritional_columns no_rounding numeric_sample)) ! 0) ''energy-kcal_100g'' = Num 100 \<and>
   (rows (projr (clean_nutritional_columns no_rounding numeric_sample)) ! 1) ''energy-kcal_100g'' = Num 200 \<and>
   (rows (projr (clean_nutritional_columns no_rounding numeric_sample)) ! 2) ''energy-kcal_100g'' = Num 200"
proof -
  note r = numeric_sample_result [of no_rounding]
  have c: "''energy-kcal_100g'' \<in> set num_cols" by (simp add: num_cols_def)
  note t = sanitizer_median [OF r c, THEN conjunct2, rule_format]
  have n: "0 < length (rows numeric_sample)" "Suc 0 < length (rows numeric_sample)"
    "2 < length (rows numeric_sample)"
    by (simp_all add: numeric_sample_def)
  have v: "(rows numeric_sample ! 0) ''energy-kcal_100g'' = Num 100"
    "(rows numeric_sample ! Suc 0) ''energy-kcal_100g'' = Num 2000"
    "(rows numeric_sample ! 2) ''energy-kcal_100g'' = Missing"
    by (simp_all add: numeric_sample_def numeric_row_def row_of_def)
  have "\<not> isl (clean_nutritional_columns no_rounding numeric_sample)"
    using r by (metis sum.disc(2))
  with t [OF n(1)] t [OF n(2)] t [OF n(3)] show ?thesis
    by (simp add: v column_values_def [symmetric] numeric_sample_columns numeric_sample_medians
          out_of_range_def astype_float32_def no_rounding_def)
qed

subsection \<open>Product names\<close>

lemma unescape_cell_isl: "isl (unescape_cell charref x) \<longleftrightarrow> is_num x"
  by (cases x) (simp_all add: unescape_cell_def notnull_def is_num_def)

lemma unescape_cell_text:
  "\<not> is_num x \<Longrightarrow>
     str_method title (str_method strip (projr (unescape_cell charref x))) = product_name_text charref x"
  by (cases x) (simp_all add: unescape_cell_def notnull_def is_num_def str_method_def
        product_name_text_def)

lemma clean_product_name_Inr:
  assumes "clean_product_name charref df = Inr df'"
  shows "''product_name'' \<in> set (columns df)"
    and "\<forall>r \<in> set (rows df). \<not> is_num (r ''product_name'')"
    and "columns df' = columns df"
    and "rows df' =
      map (\<lambda>r. r(''product_name'' :=
             fillna (Text ''Unknown'') (product_name_text charref (r ''product_name''))))
        (filter (\<lambda>r. product_name_text charref (r ''product_name'') \<noteq> Text ''Xxx'') (rows df))"
proof -
  from assms show c: "''product_name'' \<in> set (columns df)"
    and n: "\<forall>r \<in> set (rows df). \<not> is_num (r ''product_name'')"
    by (auto simp: clean_product_name_def require_Inr bind_err_Inr apply_column_Inr
          unescape_cell_isl)
  from assms c show "columns df' = columns df"
    by (auto simp: clean_product_name_def require_Inr bind_err_Inr apply_column_Inr Let_def
          assign_def filter_rows_def)
  have m: "map (\<lambda>r. r(''product_name'' := str_method title (str_method strip
               (projr (unescape_cell charref (r ''product_name''))))))  (rows df) =
           map (\<lambda>r. r(''product_name'' := product_name_text charref (r ''product_name''))) (rows df)"
    using n by (simp add: unescape_cell_text)
  from assms have "rows df' =
     map (\<lambda>r. r(''product_name'' := fillna (Text ''Unknown'') (r ''product_name'')))
       (filter (\<lambda>r. r ''product_name'' \<noteq> Text ''Xxx'')
         (map (\<lambda>r. r(''product_name'' := str_method title (str_method strip
               (projr (unescape_cell charref (r ''product_name'')))))) (rows df)))"
    by (auto simp: clean_product_name_def require_Inr bind_err_Inr apply_column_Inr Let_def
          assign_def filter_rows_def comp_def)
  then show "rows df' =
      map (\<lambda>r. r(''product_name'' :=
             fillna (Text ''Unknown'') (product_name_text charref (r ''product_name''))))
        (filter (\<lambda>r. product_name_text charref (r ''product_name'') \<noteq> Text ''Xxx'') (rows df))"
    unfolding m by (simp add: filter_map comp_def)
qed





lemma apply_column_total:
  assumes "\<forall>r \<in> set (rows df). \<not> isl (f (r c))"
  shows "apply_column c f df = Inr (assign c (\<lambda>r. projr (f (r c))) df)"
  using assms by (simp add: apply_column_Inr)

lemma clean_product_name_succeeds:
  assumes "''product_name'' \<in> set (columns df)"
    and "\<forall>r \<in> set (rows df). \<not> is_num (r ''product_name'')"
  shows "\<exists>df'. clean_product_name charref df = Inr df'"
proof -
  from assms(2) have "\<forall>r \<in> set (rows df). \<not> isl (unescape_cell charref (r ''product_name''))"
    by (simp add: unescape_cell_isl)
  from apply_column_total [of df "unescape_cell charref" "''product_name''", OF this] assms(1)
  show ?thesis
    by (simp add: clean_product_name_def require_def bind_err_def Let_def)
qed




subsection \<open>The stages in sequence\<close>

lemma column_values_assign:
  "column_values c (assign c' f df) =
     (if c = c' then map f (rows df) else column_values c df)"
  by (simp add: column_values_def assign_def)

lemma length_rows_assign: "length (rows (assign c f df)) = length (rows df)"
  by (simp add: assign_def)

lemma clean_brands_Inr:
  assumes "clean_brands charref df = Inr df'"
  shows "''brands'' \<in> set (columns df)"
    and "columns df' = columns df"
    and "length (rows df') = length (rows df)"
    and "c \<noteq> ''brands'' \<Longrightarrow> column_values c df' = column_values c df"
    and "\<forall>x \<in> set (column_values ''brands'' df'). is_text x"
proof -
  from assms obtain d where c: "''brands'' \<in> set (columns df)"
    and d: "d = assign ''brands'' (\<lambda>r. projr (unescape_cell charref (r ''brands''))) df"
    and e: "df' = assign ''brands'' (\<lambda>r. fillna (Text ''Unknown'') (r ''brands''))
             (assign ''brands'' (\<lambda>r. comma_spacing (r ''brands''))
               (assign ''brands'' (\<lambda>r. str_method (replace_lit right_quote [CHR 0x27]) (r ''brands''))
                 (assign ''brands'' (\<lambda>r. replace_value [Text ''Xylimgxyling''] (Text ''Unknown'') (r ''brands''))
                   (assign ''brands'' (\<lambda>r. str_method strip (str_method title (r ''brands''))) d))))"
    by (auto simp: clean_brands_def require_Inr bind_err_Inr apply_column_Inr Let_def)
  show "''brands'' \<in> set (columns df)" by (rule c)
  from c show "columns df' = columns df"
    unfolding e d by (simp add: assign_def)
  show "length (rows df') = length (rows df)"
    unfolding e d by (simp add: length_rows_assign)
  show "column_values c df' = column_values c df" if "c \<noteq> ''brands''"
    unfolding e d using that by (simp add: column_values_assign)
  have "is_text (fillna (Text ''Unknown'') x)" if "x = Missing \<or> is_text x" for x
    using that by (auto simp: fillna_def is_text_def)
  moreover have "str_method f x = Missing \<or> is_text (str_method f x)" for f x
    by (cases x) (simp_all add: str_method_def is_text_def)
  ultimately show "\<forall>x \<in> set (column_values ''brands'' df'). is_text x"
    unfolding e by (auto simp: column_values_assign rows_assign comma_spacing_def)
qed

lemma clean_categories_Inr:
  assumes "clean_categories df = Inr df'"
  shows "''categories'' \<in> set (columns df)"
    and "set (columns df') = insert ''categories_top'' (set (columns df))"
    and "length (rows df') = length (rows df)"
    and "c \<noteq> ''categories'' \<Longrightarrow> c \<noteq> ''categories_top'' \<Longrightarrow>
           column_values c df' = column_values c df"
  using assms
  by (auto simp: clean_categories_def require_Inr Let_def columns_assign column_values_assign
        length_rows_assign)

lemma clean_countries_Inr:
  assumes "clean_countries df = Inr df'"
  shows "''countries'' \<in> set (columns df)"
    and "set (columns df') = set (columns df)"
    and "length (rows df') = length (rows df)"
    and "c \<noteq> ''countries'' \<Longrightarrow> column_values c df' = column_values c df"
  using assms
  by (auto simp: clean_countries_eq require_Inr apply_column_Inr columns_assign
        column_values_assign length_rows_assign)

lemma clean_ingredients_labels_packaging_Inr:
  assumes "clean_ingredients_labels_packaging df = Inr df'"
  shows "''ingredients_text'' \<in> set (columns df)" "''labels'' \<in> set (columns df)"
    "''packaging'' \<in> set (columns df)"
    and "set (columns df') = set (columns df)"
    and "length (rows df') = length (rows df)"
    and "c \<noteq> ''ingredients_text'' \<Longrightarrow> c \<noteq> ''labels'' \<Longrightarrow> c \<noteq> ''packaging'' \<Longrightarrow>
           column_values c df' = column_values c df"
  using assms
  by (auto simp: clean_ingredients_labels_packaging_def require_Inr Let_def columns_assign
        column_values_assign length_rows_assign)

lemma clean_nutriscore_Inr:
  assumes "clean_nutriscore df = Inr df'"
  shows "''nutriscore_grade'' \<in> set (columns df)"
    and "''environmental_score_score'' \<in> set (columns df)"
    and "set (columns df') =
           insert ''nutriscore_numeric'' (set (columns df)) - {''environmental_score_score''}"
    and "length (rows df') = length (rows df)"
    and "c \<noteq> ''nutriscore_grade'' \<Longrightarrow> c \<noteq> ''nutriscore_numeric'' \<Longrightarrow>
           column_values c df' = column_values c df"
  using assms
  by (auto simp: clean_nutriscore_def require_Inr Let_def drop_column_Inr columns_assign
        column_values_def rows_assign)

lemma clean_nova_group_Inr:
  assumes "clean_nova_group df = Inr df'"
  shows "''nova_group'' \<in> set (columns df)"
    and "set (columns df') = insert ''nova_group_label'' (set (columns df))"
    and "length (rows df') = length (rows df)"
    and "c \<noteq> ''nova_group'' \<Longrightarrow> c \<noteq> ''nova_group_label'' \<Longrightarrow>
           column_values c df' = column_values c df"
  using assms
  by (auto simp: clean_nova_group_def require_Inr Let_def columns_assign column_values_assign
        length_rows_assign)

lemma for_each_numeric_columns:
  assumes "for_each_column (clean_numeric_column f32) cols df = Inr df'"
  shows "columns df' = columns df \<and> set cols \<subseteq> set (columns df)"
  using assms
proof (induction cols arbitrary: df)
  case Nil
  then show ?case by simp
next
  case (Cons a cols)
  from Cons.prems(1) obtain d where d: "clean_numeric_column f32 a df = Inr d"
    and r: "for_each_column (clean_numeric_column f32) cols d = Inr df'"
    by (auto simp: bind_err_Inr)
  from Cons.IH [OF r] clean_numeric_column_Inr(1,2) [OF d] show ?case by simp
qed




lemma drop_duplicates_columns: "columns (drop_duplicates df) = columns df"
  by (simp add: drop_duplicates_def)

lemma drop_duplicates_rows: "set (rows (drop_duplicates df)) \<subseteq> set (rows df)"
  by (auto simp: drop_duplicates_def dest: set_zip_rightD)



lemma run_pipeline_Inr:
  assumes "run_pipeline charref f32 loaded = Inr out"
  shows "cleaning_stages charref f32 (drop_duplicates loaded) = Inr (saved out)"
    and "duplicate_rows out = length (filter (\<lambda>d. d) (duplicated loaded))"
    and "final out = saved out"
  using assms
  by (auto simp: run_pipeline_def Let_def bind_err_Inr show_cleaning_summary_def)


lemma is_text_not_num: "is_text x \<Longrightarrow> \<not> is_num x"
  by (cases x) (simp_all add: is_text_def is_num_def)

lemma clean_product_name_cells:
  assumes "clean_product_name charref df = Inr df'"
  shows "c \<noteq> ''product_name'' \<Longrightarrow> set (column_values c df') \<subseteq> set (column_values c df)"
    and "\<forall>x \<in> set (column_values ''product_name'' df'). is_text x"
proof -
  show "set (column_values c df') \<subseteq> set (column_values c df)" if "c \<noteq> ''product_name''"
    using that by (auto simp: column_values_def clean_product_name_Inr(4) [OF assms])
  have "is_text (fillna (Text ''Unknown'') (product_name_text charref x))" for x
    by (cases x) (simp_all add: fillna_def product_name_text_def is_text_def)
  then show "\<forall>x \<in> set (column_values ''product_name'' df'). is_text x"
    by (auto simp: column_values_def clean_product_name_Inr(4) [OF assms])
qed

lemma clean_brands_succeeds:
  assumes "''brands'' \<in> set (columns df)"
    and "\<forall>x \<in> set (column_values ''brands'' df). \<not> is_num x"
  shows "\<exists>df'. clean_brands charref df = Inr df'"
proof -
  from assms(2) have "\<forall>r \<in> set (rows df). \<not> isl (unescape_cell charref (r ''brands''))"
    by (simp add: unescape_cell_isl column_values_def)
  from apply_column_total [of df "unescape_cell charref" "''brands''", OF this] assms(1)
  show ?thesis
    by (simp add: clean_brands_def require_def bind_err_def Let_def)
qed

lemma clean_categories_succeeds:
  "''categories'' \<in> set (columns df) \<Longrightarrow> \<exists>df'. clean_categories df = Inr df'"
  by (simp add: clean_categories_def require_def Let_def)

lemma clean_ingredients_labels_packaging_succeeds:
  assumes "''ingredients_text'' \<in> set (columns df)" "''labels'' \<in> set (columns df)"
    "''packaging'' \<in> set (columns df)"
  shows "\<exists>df'. clean_ingredients_labels_packaging df = Inr df'"
  using assms
  by (simp add: clean_ingredients_labels_packaging_def require_def Let_def columns_assign)

lemma clean_nutriscore_succeeds:
  assumes "''nutriscore_grade'' \<in> set (columns df)"
    "''environmental_score_score'' \<in> set (columns df)"
  shows "\<exists>df'. clean_nutriscore df = Inr df'"
  using assms
  by (simp add: clean_nutriscore_def require_def Let_def drop_column_def columns_assign)

lemma clean_nutriscore_KeyError:
  assumes "''nutriscore_grade'' \<in> set (columns df)"
    "''environmental_score_score'' \<notin> set (columns df)"
  shows "clean_nutriscore df = Inl (KeyError ''environmental_score_score'')"
  using assms
  by (simp add: clean_nutriscore_def require_def Let_def drop_column_def columns_assign)

lemma clean_nova_group_succeeds:
  "''nova_group'' \<in> set (columns df) \<Longrightarrow> \<exists>df'. clean_nova_group df = Inr df'"
  by (simp add: clean_nova_group_def require_def Let_def)

lemma clean_product_name_succeeds_cells:
  assumes "''product_name'' \<in> set (columns df)"
    and "\<forall>x \<in> set (column_values ''product_name'' df). \<not> is_num x"
  shows "\<exists>df'. clean_product_name charref df = Inr df'"
  using assms clean_product_name_succeeds [of df charref] by (simp add: column_values_def)

lemma rerun_KeyError:
  assumes c: "''product_name'' \<in> set (columns d)" "''brands'' \<in> set (columns d)"
      "''categories'' \<in> set (columns d)" "''countries'' \<in> set (columns d)"
      "''ingredients_text'' \<in> set (columns d)" "''labels'' \<in> set (columns d)"
      "''packaging'' \<in> set (columns d)" "''nutriscore_grade'' \<in> set (columns d)"
    and e: "''environmental_score_score'' \<notin> set (columns d)"
    and p: "\<forall>x \<in> set (column_values ''product_name'' d). \<not> is_num x"
    and b: "\<forall>x \<in> set (column_values ''brands'' d). \<not> is_num x"
  shows "cleaning_stages charref f32 d = Inl (KeyError ''environmental_score_score'')"
proof -
  from clean_product_name_succeeds_cells [OF c(1) p]
  obtain d1 where 1: "clean_product_name charref d = Inr d1" by blast
  have c1: "columns d1 = columns d"
    by (rule clean_product_name_Inr(3) [OF 1])
  from clean_product_name_cells(1) [OF 1, of "''brands''"] b
  have b1: "\<forall>x \<in> set (column_values ''brands'' d1). \<not> is_num x" by auto
  from clean_brands_succeeds [OF _ b1] c(2) c1
  obtain d2 where 2: "clean_brands charref d1 = Inr d2" by auto
  have c2: "columns d2 = columns d"
    using clean_brands_Inr(2) [OF 2] c1 by simp
  from clean_categories_succeeds [of d2] c(3) c2
  obtain d3 where 3: "clean_categories d2 = Inr d3" by auto
  have c3: "set (columns d3) = insert ''categories_top'' (set (columns d))"
    using clean_categories_Inr(2) [OF 3] c2 by simp
  from clean_countries_succeeds [of d3] c(4) c3
  obtain d4 where 4: "clean_countries d3 = Inr d4" by auto
  have c4: "set (columns d4) = insert ''categories_top'' (set (columns d))"
    using clean_countries_Inr(2) [OF 4] c3 by simp
  from clean_ingredients_labels_packaging_succeeds [of d4] c(5,6,7) c4
  obtain d5 where 5: "clean_ingredients_labels_packaging d4 = Inr d5" by auto
  have c5: "set (columns d5) = insert ''categories_top'' (set (columns d))"
    using clean_ingredients_labels_packaging_Inr(4) [OF 5] c4 by simp
  have "clean_nutriscore d5 = Inl (KeyError ''environmental_score_score'')"
    using c(8) e c5 by (intro clean_nutriscore_KeyError) simp_all
  with 1 2 3 4 5 show ?thesis
    by (simp add: cleaning_stages_def bind_err_def)
qed

lemma cleaning_stages_result:
  assumes "cleaning_stages charref f32 df = Inr df'"
  shows "''product_name'' \<in> set (columns df')" "''brands'' \<in> set (columns df')"
      "''categories'' \<in> set (columns df')" "''countries'' \<in> set (columns df')"
      "''ingredients_text'' \<in> set (columns df')" "''labels'' \<in> set (columns df')"
      "''packaging'' \<in> set (columns df')" "''nutriscore_grade'' \<in> set (columns df')"
    and "''environmental_score_score'' \<notin> set (columns df')"
    and "\<forall>x \<in> set (column_values ''product_name'' df'). is_text x"
    and "\<forall>x \<in> set (column_values ''brands'' df'). is_text x"
proof -
  from assms obtain d1 d2 d3 d4 d5 d6 d7 where
    1: "clean_product_name charref df = Inr d1" and 2: "clean_brands charref d1 = Inr d2" and
    3: "clean_categories d2 = Inr d3" and 4: "clean_countries d3 = Inr d4" and
    5: "clean_ingredients_labels_packaging d4 = Inr d5" and 6: "clean_nutriscore d5 = Inr d6" and
    7: "clean_nova_group d6 = Inr d7" and 8: "clean_nutritional_columns f32 d7 = Inr df'"
    unfolding cleaning_stages_def bind_err_Inr by blast
  from 8 have 9: "for_each_column (clean_numeric_column f32) num_cols d7 = Inr df'"
    by (simp add: clean_nutritional_columns_def)
  have c1: "set (columns d1) = set (columns df)"
    by (simp add: clean_product_name_Inr(3) [OF 1])
  have c2: "set (columns d2) = set (columns df)"
    by (simp add: clean_brands_Inr(2) [OF 2] c1)
  have c3: "set (columns d3) = insert ''categories_top'' (set (columns df))"
    by (simp add: clean_categories_Inr(2) [OF 3] c2)
  have c4: "set (columns d4) = insert ''categories_top'' (set (columns df))"
    by (simp add: clean_countries_Inr(2) [OF 4] c3)
  have c5: "set (columns d5) = insert ''categories_top'' (set (columns df))"
    by (simp add: clean_ingredients_labels_packaging_Inr(4) [OF 5] c4)
  have c6: "set (columns d6) =
      insert ''nutriscore_numeric'' (insert ''categories_top'' (set (columns df)))
        - {''environmental_score_score''}"
    by (simp add: clean_nutriscore_Inr(3) [OF 6] c5)
  have c7: "set (columns d7) = insert ''nova_group_label'' (set (columns d6))"
    by (simp add: clean_nova_group_Inr(2) [OF 7])
  have c8: "set (columns df') = set (columns d7)"
    using for_each_numeric_columns [OF 9] by simp
  note cs = c8 c7 c6
  from clean_product_name_Inr(1) [OF 1] show "''product_name'' \<in> set (columns df')"
    by (simp add: cs)
  from clean_brands_Inr(1) [OF 2] c1 show "''brands'' \<in> set (columns df')"
    by (simp add: cs)
  from clean_categories_Inr(1) [OF 3] c2 show "''categories'' \<in> set (columns df')"
    by (simp add: cs)
  from clean_countries_Inr(1) [OF 4] c3 show "''countries'' \<in> set (columns df')"
    by (simp add: cs)
  from clean_ingredients_labels_packaging_Inr(1,2,3) [OF 5] c4
  show "''ingredients_text'' \<in> set (columns df')" "''labels'' \<in> set (columns df')"
    "''packaging'' \<in> set (columns df')"
    by (simp_all add: cs)
  from clean_nutriscore_Inr(1) [OF 6] c5 show "''nutriscore_grade'' \<in> set (columns df')"
    by (simp add: cs)
  show "''environmental_score_score'' \<notin> set (columns df')"
    by (simp add: cs)
  have keep: "column_values c df' = column_values c d2"
    if "c = ''product_name'' \<or> c = ''brands''" for c
  proof -
    from that have n: "c \<notin> set num_cols" by (auto simp: num_cols_def)
    from that show ?thesis
      using for_each_numeric_other [OF 9 n] clean_nova_group_Inr(4) [OF 7, of c]
        clean_nutriscore_Inr(5) [OF 6, of c] clean_ingredients_labels_packaging_Inr(6) [OF 5, of c]
        clean_countries_Inr(4) [OF 4, of c] clean_categories_Inr(4) [OF 3, of c]
      by auto
  qed
  from clean_product_name_cells(2) [OF 1] clean_brands_Inr(4) [OF 2, of "''product_name''"]
  show "\<forall>x \<in> set (column_values ''product_name'' df'). is_text x"
    by (simp add: keep)
  from clean_brands_Inr(5) [OF 2]
  show "\<forall>x \<in> set (column_values ''brands'' df'). is_text x"
    by (simp add: keep)
qed

lemma drop_duplicates_cells:
  "set (column_values c (drop_duplicates df)) \<subseteq> set (column_values c df)"
  using drop_duplicates_rows [of df] by (auto simp: column_values_def)

lemma rerun_after_run:
  assumes "cleaning_stages charref f32 df = Inr df'"
  shows "cleaning_stages charref' f32' (drop_duplicates df') =
    Inl (KeyError ''environmental_score_score'')"
proof -
  note r = cleaning_stages_result [OF assms]
  let ?d = "drop_duplicates df'"
  have p: "\<forall>x \<in> set (column_values ''product_name'' ?d). \<not> is_num x"
    using r(10) drop_duplicates_cells [of "''product_name''" df']
    by (auto dest: is_text_not_num)
  have b: "\<forall>x \<in> set (column_values ''brands'' ?d). \<not> is_num x"
    using r(11) drop_duplicates_cells [of "''brands''" df']
    by (auto dest: is_text_not_num)
  show ?thesis
    using r(1-9) by (intro rerun_KeyError p b) (simp_all add: drop_duplicates_columns)
qed

text \<open>
  C2, amended: on the saved table of a successful run, a second run of the pipeline does
  not succeed: deduplication and the stages up to \<^verbatim>\<open>clean_ingredients_labels_packaging\<close>
  run, and \<^verbatim>\<open>clean_nutriscore\<close> raises KeyError for \<open>environmental_score_score\<close>, the
  column that the first run dropped. This holds whatever the entity substitution and the
  rounding of the second run are.
\<close>

theorem pipeline_second_run:
  assumes "run_pipeline charref f32 loaded = Inr out"
  shows "run_pipeline charref' f32' (saved out) = Inl (KeyError ''environmental_score_score'')"
  using rerun_after_run [OF run_pipeline_Inr(1) [OF assms], of charref' f32']
  by (simp add: run_pipeline_def Let_def bind_err_def)

lemma cleaning_stages_succeeds:
  assumes e: "set expected_columns \<subseteq> set (columns df)" and w: "well_typed df"
  shows "\<exists>df'. cleaning_stages charref f32 df = Inr df'"
proof -
  from e have c: "''product_name'' \<in> set (columns df)" "''brands'' \<in> set (columns df)"
      "''categories'' \<in> set (columns df)" "''countries'' \<in> set (columns df)"
      "''ingredients_text'' \<in> set (columns df)" "''labels'' \<in> set (columns df)"
      "''packaging'' \<in> set (columns df)" "''nutriscore_grade'' \<in> set (columns df)"
      "''nova_group'' \<in> set (columns df)" "''environmental_score_score'' \<in> set (columns df)"
    and n: "set num_cols \<subseteq> set (columns df)"
    by (simp_all add: expected_columns_def)
  from w have p: "\<forall>x \<in> set (column_values ''product_name'' df). \<not> is_num x"
    and b: "\<forall>x \<in> set (column_values ''brands'' df). \<not> is_num x"
    and t: "\<forall>c \<in> set num_cols. \<forall>x \<in> set (column_values c df). \<not> is_text x"
    by (simp_all add: well_typed_def list_all_iff)
  from clean_product_name_succeeds_cells [OF c(1) p]
  obtain d1 where 1: "clean_product_name charref df = Inr d1" by blast
  have c1: "set (columns d1) = set (columns df)"
    by (simp add: clean_product_name_Inr(3) [OF 1])
  from clean_product_name_cells(1) [OF 1, of "''brands''"] b
  have b1: "\<forall>x \<in> set (column_values ''brands'' d1). \<not> is_num x" by auto
  from clean_brands_succeeds [OF _ b1] c(2) c1
  obtain d2 where 2: "clean_brands charref d1 = Inr d2" by auto
  have c2: "set (columns d2) = set (columns df)"
    using clean_brands_Inr(2) [OF 2] c1 by simp
  from clean_categories_succeeds [of d2] c(3) c2
  obtain d3 where 3: "clean_categories d2 = Inr d3" by auto
  have c3: "set (columns d3) = insert ''categories_top'' (set (columns df))"
    using clean_categories_Inr(2) [OF 3] c2 by simp
  from clean_countries_succeeds [of d3] c(4) c3
  obtain d4 where 4: "clean_countries d3 = Inr d4" by auto
  have c4: "set (columns d4) = insert ''categories_top'' (set (columns df))"
    using clean_countries_Inr(2) [OF 4] c3 by simp
  from clean_ingredients_labels_packaging_succeeds [of d4] c(5,6,7) c4
  obtain d5 where 5: "clean_ingredients_labels_packaging d4 = Inr d5" by auto
  have c5: "set (columns d5) = insert ''categories_top'' (set (columns df))"
    using clean_ingredients_labels_packaging_Inr(4) [OF 5] c4 by simp
  from clean_nutriscore_succeeds [of d5] c(8,10) c5
  obtain d6 where 6: "clean_nutriscore d5 = Inr d6" by auto
  have c6: "set (columns d6) =
      insert ''nutriscore_numeric'' (insert ''categories_top'' (set (columns df)))
        - {''environmental_score_score''}"
    by (simp add: clean_nutriscore_Inr(3) [OF 6] c5)
  from clean_nova_group_succeeds [of d6] c(9) c6
  obtain d7 where 7: "clean_nova_group d6 = Inr d7" by auto
  have c7: "set (columns d7) = insert ''nova_group_label'' (set (columns d6))"
    by (simp add: clean_nova_group_Inr(2) [OF 7])
  have "col \<in> set (columns d7) \<and> \<not> list_ex is_text (column_values col d7)"
    if col: "col \<in> set num_cols" for col
  proof -
    from col have ne: "col \<noteq> ''product_name''" "col \<noteq> ''brands''" "col \<noteq> ''categories''"
      "col \<noteq> ''categories_top''" "col \<noteq> ''countries''" "col \<noteq> ''ingredients_text''"
      "col \<noteq> ''labels''" "col \<noteq> ''packaging''" "col \<noteq> ''nutriscore_grade''"
      "col \<noteq> ''nutriscore_numeric''" "col \<noteq> ''nova_group''" "col \<noteq> ''nova_group_label''"
      "col \<noteq> ''environmental_score_score''"
      by (auto simp: num_cols_def)
    from ne have "column_values col d7 = column_values col d1"
      using clean_nova_group_Inr(4) [OF 7, of col] clean_nutriscore_Inr(5) [OF 6, of col]
        clean_ingredients_labels_packaging_Inr(6) [OF 5, of col]
        clean_countries_Inr(4) [OF 4, of col] clean_categories_Inr(4) [OF 3, of col]
        clean_brands_Inr(4) [OF 2, of col]
      by simp
    with clean_product_name_cells(1) [OF 1 ne(1)] t col
    have "\<not> list_ex is_text (column_values col d7)"
      by (auto simp: list_ex_iff)
    moreover from col n ne have "col \<in> set (columns d7)"
      by (auto simp: c7 c6)
    ultimately show ?thesis by simp
  qed
  then have "\<exists>df'. for_each_column (clean_numeric_column f32) num_cols d7 = Inr df'"
    by (intro for_each_numeric_succeeds) blast
  with 1 2 3 4 5 6 7 show ?thesis
    by (auto simp: cleaning_stages_def bind_err_def clean_nutritional_columns_def)
qed


lemma pipeline_sample_duplicated: "duplicated pipeline_sample = [False, True, False, False]"
  by (simp add: duplicated_def pipeline_sample_def expected_columns_def num_cols_def
        sample_row_def row_of_def)

lemma pipeline_sample_deduplicated:
  "drop_duplicates pipeline_sample =
     \<lparr>columns = expected_columns,
      rows = [sample_row (Text ''green tea'') (Num 1), sample_row (Text ''XXX'') (Num 2),
              sample_row Missing (Num 3)]\<rparr>"
  by (simp add: drop_duplicates_def pipeline_sample_duplicated) (simp add: pipeline_sample_def)

lemma pipeline_sample_well_typed: "well_typed (drop_duplicates pipeline_sample)"
  unfolding pipeline_sample_deduplicated
  by (simp add: well_typed_def column_values_def num_cols_def sample_row_def row_of_def
        is_num_def is_text_def)

lemma pipeline_sample_result:
  "run_pipeline charref f32 pipeline_sample = Inr (projr (run_pipeline charref f32 pipeline_sample))"
proof -
  have "set expected_columns \<subseteq> set (columns (drop_duplicates pipeline_sample))"
    by (simp add: pipeline_sample_deduplicated)
  from cleaning_stages_succeeds [OF this pipeline_sample_well_typed, of charref f32]
  show ?thesis
    by (auto simp: run_pipeline_def Let_def bind_err_def show_cleaning_summary_def)
qed



text \<open>
  C2, as stated, at a concrete table: the pipeline succeeds on \<open>pipeline_sample\<close>, and run
  again on the table it saved it ends with an error instead of returning that table.
\<close>

theorem pipeline_not_idempotent_counterexample:
  "\<not> isl (run_pipeline no_references no_rounding pipeline_sample) \<and>
   isl (run_pipeline no_references no_rounding
          (saved (projr (run_pipeline no_references no_rounding pipeline_sample))))"
proof -
  note r = pipeline_sample_result [of no_references no_rounding]
  have a: "\<not> isl (run_pipeline no_references no_rounding pipeline_sample)"
    using r by (metis sum.disc(2))
  from rerun_after_run [OF run_pipeline_Inr(1) [OF r], of no_references no_rounding]
  have "isl (run_pipeline no_references no_rounding
          (saved (projr (run_pipeline no_references no_rounding pipeline_sample))))"
    by (simp add: run_pipeline_def Let_def bind_err_def)
  with a show ?thesis by simp
qed

theorem pipeline_second_run_witness:
  "\<not> isl (run_pipeline no_references no_rounding pipeline_sample) \<and>
   run_pipeline no_references no_rounding
     (saved (projr (run_pipeline no_references no_rounding pipeline_sample))) =
   Inl (KeyError ''environmental_score_score'')"
proof -
  note r = pipeline_sample_result [of no_references no_rounding]
  have "\<not> isl (run_pipeline no_references no_rounding pipeline_sample)"
    using r by (metis sum.disc(2))
  with pipeline_second_run [OF r, of no_references no_rounding] show ?thesis
    by simp
qed

end
